theory Spec2Isabelle
  imports Complex_Main
begin

section \<open>Values and exceptions\<close>

text \<open>
  The server is a Python 3 program (Flask endpoints over a MySQL store).  Python floats and
  MySQL decimals are modelled as exact reals; no statement below depends on rounding.
  A JSON number that may be \<open>null\<close> is a \<open>real option\<close>.  Every exception the modelled
  code can raise is a value of \<open>error\<close>; an endpoint turns it into its HTTP 500 answer.
\<close>

datatype error =
    KeyError string
  | TypeError
  | ValueError
  | ZeroDivisionError
  | DatabaseError

text \<open>Python truthiness of a number that may be \<open>None\<close>: \<open>None\<close> and \<open>0\<close> are false.\<close>

definition truthy :: "real option \<Rightarrow> bool" where
  "truthy v = (case v of None \<Rightarrow> False | Some x \<Rightarrow> x \<noteq> 0)"

text \<open>
  The reason strings are f-strings over the numbers of the comparison that fired.  They are
  kept as structured values: the constructor is the text, its arguments the interpolated
  values.
\<close>

datatype reason =
    Models_not_loaded
  | Pool_not_in_training_data
  | Ratio_exceeds_absolute_threshold real real
  | Ratio_above_p92 real real
  | Ratio_spike_detected real real
  | Ratio_below_safe_threshold real real
  | Normal_conditions real
  | Agent_disabled
  | Switch_limit_reached int int
  | Too_soon_to_switch real real
  | High_risk_detected real
  | Safe_to_return_to_spot string real
  | Better_pool_available string real

section \<open>Risk scorer: \<open>ModelManager.get_risk_score\<close>\<close>

record pool_stats =
  ratio_p50 :: real
  ratio_p92 :: real

record detector_config =
  ratio_spike_threshold :: real
  ratio_absolute_high :: real
  ratio_safe_return :: real

text \<open>
  \<open>ModelManager\<close>: \<open>loaded\<close>, and of \<open>capacity_detector\<close> the two entries the scorer reads,
  \<open>capacity_detector['pool_context']\<close> (a dict by pool id) and \<open>capacity_detector['config']\<close>.
\<close>

record model_manager =
  loaded :: bool
  pool_context :: "string \<rightharpoonup> pool_stats"
  config :: detector_config

text \<open>
  \<open>current_price / ondemand_price if ondemand_price > 0 else 1.0\<close>.  The price is the one
  \<open>get_decision\<close> resolved, which is \<open>None\<close> for an empty snapshot: dividing it raises
  \<open>TypeError\<close>.
\<close>

definition price_ratio :: "real option \<Rightarrow> real \<Rightarrow> error + real" where
  "price_ratio current_price ondemand_price =
     (if ondemand_price > 0
      then (case current_price of None \<Rightarrow> Inl TypeError | Some p \<Rightarrow> Inr (p / ondemand_price))
      else Inr 1)"

text \<open>
  The three flags are computed first, then the branches are tried in escalation order
  (first match wins).  The parameter \<open>current_discount\<close> is not read.
\<close>

definition get_risk_score ::
  "model_manager \<Rightarrow> string \<Rightarrow> real option \<Rightarrow> real \<Rightarrow> real \<Rightarrow> error + (real \<times> string \<times> reason)" where
  "get_risk_score self pool_id current_price current_discount ondemand_price =
     (if \<not> loaded self then Inr (5 / 10, ''normal'', Models_not_loaded)
      else case pool_context self pool_id of
        None \<Rightarrow> Inr (5 / 10, ''normal'', Pool_not_in_training_data)
      | Some ctx \<Rightarrow>
          (case price_ratio current_price ondemand_price of
             Inl e \<Rightarrow> Inl e
           | Inr r \<Rightarrow>
               (let cfg = config self;
                    spike = (r > ratio_p50 ctx * (1 + ratio_spike_threshold cfg));
                    absolute_high = (r > ratio_absolute_high cfg);
                    event = (r > ratio_p92 ctx)
                in Inr
                  (if absolute_high
                     then (9 / 10, ''event'',
                           Ratio_exceeds_absolute_threshold r (ratio_absolute_high cfg))
                   else if event
                     then (8 / 10, ''high-risk'', Ratio_above_p92 r (ratio_p92 ctx))
                   else if spike
                     then (6 / 10, ''high-risk'', Ratio_spike_detected r (ratio_p50 ctx))
                   else if r < ratio_safe_return cfg
                     then (2 / 10, ''safe-to-return'',
                           Ratio_below_safe_threshold r (ratio_safe_return cfg))
                   else (3 / 10, ''normal'', Normal_conditions r)))))"

text \<open>The risk order of the states: safe-to-return < normal < high-risk < event.\<close>

definition state_rank :: "string \<Rightarrow> nat" where
  "state_rank s =
     (if s = ''safe-to-return'' then 0
      else if s = ''normal'' then 1
      else if s = ''high-risk'' then 2
      else 3)"

definition score_and_state :: "error + (real \<times> string \<times> reason) \<Rightarrow> (real \<times> string) option" where
  "score_and_state res = (case res of Inl e \<Rightarrow> None | Inr (score, st, why) \<Rightarrow> Some (score, st))"

section \<open>The store\<close>

text \<open>
  The MySQL tables the modelled endpoints touch, with the columns their statements name.
  Tables with a key the statements address are maps from the key; tables that only grow by
  \<open>INSERT\<close> are lists in insertion order.  Timestamps are seconds on the time line; a
  \<open>NULL\<close> column is \<open>None\<close>.  The schema is not part of the source: a column an \<open>INSERT\<close>
  leaves out (\<open>instances.terminated_at\<close>) is taken to default to \<open>NULL\<close>.
\<close>

record agent_row =
  a_client_id :: int
  a_enabled :: bool
  a_auto_switch_enabled :: bool

record agent_config_row =
  ac_min_savings_percent :: real
  ac_risk_threshold :: real
  ac_max_switches_per_week :: int
  ac_min_pool_duration_hours :: int

record client_row =
  total_savings :: real

record instance_row =
  i_client_id :: int
  i_agent_id :: string
  i_instance_type :: string
  i_region :: string
  i_az :: string
  i_ami_id :: string
  i_current_mode :: string
  i_current_pool_id :: "string option"
  i_spot_price :: real
  i_is_active :: bool
  i_installed_at :: "real option"
  i_last_switch_at :: "real option"
  i_terminated_at :: "real option"

record switch_event =
  se_client_id :: int
  se_instance_id :: string
  se_agent_id :: string
  se_trigger :: string
  se_from_mode :: string
  se_to_mode :: string
  se_from_pool_id :: "string option"
  se_to_pool_id :: "string option"
  se_on_demand_price :: real
  se_old_spot_price :: real
  se_new_spot_price :: real
  se_savings_impact :: real
  se_snapshot_used :: bool
  se_snapshot_id :: "string option"
  se_old_instance_id :: string
  se_new_instance_id :: string
  se_timestamp :: real

record risk_score_row =
  rs_client_id :: int
  rs_instance_id :: string
  rs_agent_id :: string
  rs_risk_score :: real
  rs_recommended_action :: string
  rs_recommended_pool_id :: string
  rs_recommended_mode :: string
  rs_expected_savings_per_hour :: real
  rs_allowed :: bool
  rs_reason :: reason

record pending_command =
  pc_id :: nat
  pc_agent_id :: string
  pc_instance_id :: string
  pc_target_mode :: string
  pc_target_pool_id :: "string option"
  pc_created_at :: real
  pc_executed_at :: "real option"

text \<open>A row of \<open>system_events\<close>; the free-text message and the metadata are left out.\<close>

record system_event =
  ev_event_type :: string
  ev_severity :: string
  ev_client_id :: "int option"
  ev_agent_id :: "string option"
  ev_instance_id :: "string option"

record db =
  agents :: "string \<rightharpoonup> agent_row"
  agent_configs :: "string \<rightharpoonup> agent_config_row"
  clients :: "int \<rightharpoonup> client_row"
  instances :: "string \<rightharpoonup> instance_row"
  switch_events :: "switch_event list"
  risk_scores :: "risk_score_row list"
  pending_switch_commands :: "pending_command list"
  system_events :: "system_event list"

text \<open>
  The state a request runs in: the tables, and the persistence faults still to come.  Each
  call of \<open>execute_query\<close> takes the head of the list; \<open>True\<close> means that this call raises
  \<open>mysql.connector.Error\<close> (no connection, statement or commit refused).  An exhausted list
  means no further fault.
\<close>

type_synonym state = "bool list \<times> db"

section \<open>\<open>execute_query\<close> and \<open>log_system_event\<close>\<close>

definition insert_system_event :: "system_event \<Rightarrow> db \<Rightarrow> db" where
  "insert_system_event ev d = d\<lparr>system_events := system_events d @ [ev]\<rparr>"

definition database_error_event :: system_event where
  "database_error_event =
     \<lparr>ev_event_type = ''database_error'', ev_severity = ''error'', ev_client_id = None,
      ev_agent_id = None, ev_instance_id = None\<rparr>"

text \<open>
  \<open>log_system_event\<close> inserts its row through \<open>execute_query\<close> and swallows every exception.
  When that insert fails, the handler of \<open>execute_query\<close> has rolled it back and has itself
  logged a \<open>database_error\<close> event, by the same route: the recursion is over the faults.
\<close>

fun log_system_event :: "system_event \<Rightarrow> state \<Rightarrow> state" where
  "log_system_event ev ([], d) = ([], insert_system_event ev d)"
| "log_system_event ev (False # faults, d) = (faults, insert_system_event ev d)"
| "log_system_event ev (True # faults, d) = log_system_event database_error_event (faults, d)"

text \<open>
  \<open>execute_query\<close>: one connection per call.  The SQL text with its parameters is the
  function \<open>stmt\<close> from the tables to the fetched result and the new tables.  Without a
  fault the statement runs and (for a statement that does not fetch) is committed at once;
  with a fault it is rolled back, a \<open>database_error\<close> event is logged, and the error is
  raised again.
\<close>

definition execute_query :: "(db \<Rightarrow> 'a \<times> db) \<Rightarrow> state \<Rightarrow> (error + 'a) \<times> state" where
  "execute_query stmt s =
     (case s of
        (True # faults, d) \<Rightarrow> (Inl DatabaseError, log_system_event database_error_event (faults, d))
      | (faults, d) \<Rightarrow> (case stmt d of (result, d') \<Rightarrow> (Inr result, (tl faults, d'))))"

definition fetching :: "(db \<Rightarrow> 'a) \<Rightarrow> db \<Rightarrow> 'a \<times> db" where
  "fetching q d = (q d, d)"

definition committing :: "(db \<Rightarrow> db) \<Rightarrow> db \<Rightarrow> unit \<times> db" where
  "committing w d = ((), w d)"

section \<open>Decision engine: \<open>get_decision\<close>\<close>

text \<open>
  The JSON body of a decide request.  A key the code reads with \<open>d[k]\<close> only is a plain
  field; a key it reads with \<open>d.get(k)\<close> somewhere may be absent and is an option
  (\<open>current_mode\<close>, \<open>current_pool_id\<close>).  A pool's price may be \<open>null\<close>.
\<close>

record spot_pool =
  pool_id :: string
  price :: "real option"

record instance_info =
  instance_id :: string
  current_mode :: "string option"
  current_pool_id :: "string option"

record pricing_info =
  spot_pools :: "spot_pool list"
  on_demand_price :: real

record decide_request =
  req_instance :: instance_info
  req_pricing :: pricing_info

text \<open>The JSON answer of the endpoint (HTTP 200).\<close>

record decision =
  d_instance_id :: string
  d_risk_score :: real
  d_recommended_action :: string
  d_recommended_mode :: string
  d_recommended_pool_id :: "string option"
  d_expected_savings_per_hour :: real
  d_allowed :: bool
  d_reason :: reason

text \<open>The row of \<open>agent_configs\<close> joined with the agent's \<open>enabled\<close> and \<open>auto_switch_enabled\<close>.\<close>

record config_data =
  enabled :: bool
  auto_switch_enabled :: bool
  min_savings_percent :: real
  risk_threshold :: real
  max_switches_per_week :: int
  min_pool_duration_hours :: int

text \<open>
  \<open>SELECT ac.*, a.enabled, a.auto_switch_enabled FROM agent_configs ac JOIN agents a
  ON a.id = ac.agent_id WHERE ac.agent_id = %s AND a.client_id = %s\<close>, one row fetched.
\<close>

definition select_config :: "string \<Rightarrow> int \<Rightarrow> db \<Rightarrow> config_data option" where
  "select_config agent_id client_id d =
     (case agent_configs d agent_id of
        None \<Rightarrow> None
      | Some ac \<Rightarrow>
          (case agents d agent_id of
             None \<Rightarrow> None
           | Some a \<Rightarrow>
               if a_client_id a = client_id
               then Some \<lparr>enabled = a_enabled a,
                          auto_switch_enabled = a_auto_switch_enabled a,
                          min_savings_percent = ac_min_savings_percent ac,
                          risk_threshold = ac_risk_threshold ac,
                          max_switches_per_week = ac_max_switches_per_week ac,
                          min_pool_duration_hours = ac_min_pool_duration_hours ac\<rparr>
               else None))"

text \<open>
  \<open>SELECT COUNT(*) FROM switch_events WHERE agent_id = %s AND timestamp >=
  DATE_SUB(NOW(), INTERVAL 7 DAY)\<close>; \<open>now\<close> is the database clock.
\<close>

definition seven_days :: real where
  "seven_days = 7 * 24 * 3600"

definition select_recent_switches :: "string \<Rightarrow> real \<Rightarrow> db \<Rightarrow> int" where
  "select_recent_switches agent_id now d =
     int (length (filter (\<lambda>e. se_agent_id e = agent_id \<and> se_timestamp e \<ge> now - seven_days)
                         (switch_events d)))"

text \<open>
  \<open>SELECT timestamp FROM switch_events WHERE instance_id = %s OR new_instance_id = %s
  ORDER BY timestamp DESC LIMIT 1\<close>, both parameters the instance id.
\<close>

fun latest :: "real list \<Rightarrow> real option" where
  "latest [] = None"
| "latest (t # ts) = (case latest ts of None \<Rightarrow> Some t | Some u \<Rightarrow> Some (max t u))"

definition select_last_switch :: "string \<Rightarrow> db \<Rightarrow> real option" where
  "select_last_switch iid d =
     latest (map se_timestamp
       (filter (\<lambda>e. se_instance_id e = iid \<or> se_new_instance_id e = iid) (switch_events d)))"

text \<open>
  The answer of the three guard short-circuits.  \<open>instance['current_mode']\<close> raises
  \<open>KeyError\<close> when the key is absent.
\<close>

definition blocked :: "instance_info \<Rightarrow> reason \<Rightarrow> error + decision" where
  "blocked inst why =
     (case current_mode inst of
        None \<Rightarrow> Inl (KeyError ''current_mode'')
      | Some mode \<Rightarrow>
          Inr \<lparr>d_instance_id = instance_id inst,
               d_risk_score = 0,
               d_recommended_action = ''stay'',
               d_recommended_mode = mode,
               d_recommended_pool_id = current_pool_id inst,
               d_expected_savings_per_hour = 0,
               d_allowed = False,
               d_reason = why\<rparr>)"

text \<open>\<open>(datetime.utcnow() - last_switch['timestamp']).total_seconds() / 3600\<close>\<close>

definition hours_since :: "real \<Rightarrow> real \<Rightarrow> real" where
  "hours_since utcnow ts = (utcnow - ts) / 3600"

text \<open>
  The lookup loop over \<open>pricing['spot_pools']\<close>: the price of the first pool with the
  current pool's id, \<open>None\<close> when the loop ends without a match.
\<close>

fun lookup_price :: "spot_pool list \<Rightarrow> string \<Rightarrow> real option" where
  "lookup_price [] cur = None"
| "lookup_price (pool # rest) cur =
     (if pool_id pool = cur then price pool else lookup_price rest cur)"

text \<open>
  The resolved current price and pool: when the price found is not truthy and the list is
  not empty, both are rebound to the list's first pool.
\<close>

definition resolve_current :: "spot_pool list \<Rightarrow> string \<Rightarrow> real option \<times> string" where
  "resolve_current pools cur =
     (let current_spot_price = lookup_price pools cur
      in if \<not> truthy current_spot_price \<and> pools \<noteq> []
         then (price (hd pools), pool_id (hd pools))
         else (current_spot_price, cur))"

text \<open>
  \<open>min(pricing['spot_pools'], key=lambda p: p['price'])\<close>: \<open>ValueError\<close> on the empty list;
  the first pool of the least price otherwise (a later pool replaces the best so far only
  when its price is strictly less); comparing with a \<open>None\<close> price raises \<open>TypeError\<close>.
\<close>

fun min_from :: "spot_pool \<Rightarrow> spot_pool list \<Rightarrow> error + spot_pool" where
  "min_from best [] = Inr best"
| "min_from best (p # ps) =
     (case price p of
        None \<Rightarrow> Inl TypeError
      | Some x \<Rightarrow>
          (case price best of
             None \<Rightarrow> Inl TypeError
           | Some y \<Rightarrow> min_from (if x < y then p else best) ps))"

definition min_by_price :: "spot_pool list \<Rightarrow> error + spot_pool" where
  "min_by_price pools = (case pools of [] \<Rightarrow> Inl ValueError | p # ps \<Rightarrow> min_from p ps)"

text \<open>Python's \<open>round(x, n)\<close> on the exact value: to the nearest, ties to even.\<close>

definition round_half_even :: "real \<Rightarrow> int" where
  "round_half_even x =
     (let f = \<lfloor>x\<rfloor>
      in if x - of_int f < 1 / 2 then f
         else if x - of_int f > 1 / 2 then f + 1
         else if even f then f else f + 1)"

definition py_round :: "real \<Rightarrow> nat \<Rightarrow> real" where
  "py_round x n = of_int (round_half_even (x * 10 ^ n)) / 10 ^ n"

text \<open>
  The branch on the risk state (lines 693 to 728): the action, mode, pool, expected savings
  and reason.  The defaults are \<open>stay\<close> on the current mode and pool with the scorer's
  reason.
\<close>

definition choose_action ::
  "config_data \<Rightarrow> pricing_info \<Rightarrow> string \<Rightarrow> string \<Rightarrow> real option \<Rightarrow> real \<Rightarrow> string \<Rightarrow> reason
     \<Rightarrow> error + (string \<times> string \<times> string \<times> real \<times> reason)" where
  "choose_action cfg pricing mode current_pool current_spot_price risk_score st why =
     (let ondemand_price = on_demand_price pricing;
          stay = (''stay'', mode, current_pool, 0, why)
      in if (st = ''event'' \<or> st = ''high-risk'') \<and> risk_score \<ge> risk_threshold cfg then
           (case current_spot_price of
              None \<Rightarrow> Inl TypeError
            | Some p \<Rightarrow>
                Inr (''fallback_ondemand'', ''ondemand'', ''n/a'', - (ondemand_price - p),
                     High_risk_detected risk_score))
         else if st = ''safe-to-return'' \<and> mode = ''ondemand'' then
           (case min_by_price (spot_pools pricing) of
              Inl e \<Rightarrow> Inl e
            | Inr best_pool \<Rightarrow>
                (case price best_pool of
                   None \<Rightarrow> Inl TypeError
                 | Some bp \<Rightarrow>
                     if ondemand_price = 0 then Inl ZeroDivisionError
                     else
                       (let savings_pct = ((ondemand_price - bp) / ondemand_price) * 100
                        in if savings_pct \<ge> min_savings_percent cfg
                           then Inr (''switch_pool'', ''spot'', pool_id best_pool,
                                     ondemand_price - bp,
                                     Safe_to_return_to_spot (pool_id best_pool) savings_pct)
                           else Inr stay)))
         else if mode = ''spot'' \<and> st = ''normal'' then
           (case min_by_price (spot_pools pricing) of
              Inl e \<Rightarrow> Inl e
            | Inr best_pool \<Rightarrow>
                if pool_id best_pool \<noteq> current_pool then
                  (case current_spot_price of
                     None \<Rightarrow> Inl TypeError
                   | Some p \<Rightarrow>
                       (case price best_pool of
                          None \<Rightarrow> Inl TypeError
                        | Some bp \<Rightarrow>
                            if ondemand_price = 0 then Inl ZeroDivisionError
                            else
                              (let savings = p - bp;
                                   savings_pct = (savings / ondemand_price) * 100
                               in if savings_pct \<ge> min_savings_percent cfg
                                  then Inr (''switch_pool'', ''spot'', pool_id best_pool, savings,
                                            Better_pool_available (pool_id best_pool) savings_pct)
                                  else Inr stay)))
                else Inr stay)
         else Inr stay)"

text \<open>
  \<open>1 - (current_spot_price / ondemand_price) if ondemand_price > 0 else 0\<close>, with the
  \<open>TypeError\<close> of dividing \<open>None\<close>.
\<close>

definition discount :: "real option \<Rightarrow> real \<Rightarrow> error + real" where
  "discount current_spot_price ondemand_price =
     (if ondemand_price > 0
      then (case current_spot_price of None \<Rightarrow> Inl TypeError | Some p \<Rightarrow> Inr (1 - p / ondemand_price))
      else Inr 0)"

text \<open>\<open>INSERT INTO risk_scores (...) VALUES (...)\<close>: the audit row of an evaluation.\<close>

definition insert_risk_score :: "risk_score_row \<Rightarrow> db \<Rightarrow> db" where
  "insert_risk_score row d = d\<lparr>risk_scores := risk_scores d @ [row]\<rparr>"

text \<open>
  The evaluating part of the endpoint (lines 673 to 751), on the configuration row that
  passed the guards.
\<close>

definition evaluate ::
  "model_manager \<Rightarrow> int \<Rightarrow> string \<Rightarrow> config_data \<Rightarrow> decide_request \<Rightarrow> state
     \<Rightarrow> (error + decision) \<times> state" where
  "evaluate mm client_id agent_id cfg data s =
     (let inst = req_instance data;
          pricing = req_pricing data;
          recorded_pool = (case current_pool_id inst of None \<Rightarrow> ''unknown'' | Some p \<Rightarrow> p);
          mode = (case current_mode inst of None \<Rightarrow> ''spot'' | Some m \<Rightarrow> m);
          (current_spot_price, current_pool) = resolve_current (spot_pools pricing) recorded_pool;
          ondemand_price = on_demand_price pricing
      in case discount current_spot_price ondemand_price of
           Inl e \<Rightarrow> (Inl e, s)
         | Inr current_discount \<Rightarrow>
           (case get_risk_score mm current_pool current_spot_price current_discount
                      ondemand_price of
                 Inl e \<Rightarrow> (Inl e, s)
               | Inr (risk_score, st, why) \<Rightarrow>
                   (case choose_action cfg pricing mode current_pool current_spot_price
                           risk_score st why of
                      Inl e \<Rightarrow> (Inl e, s)
                    | Inr (action, rec_mode, rec_pool, expected_savings, why') \<Rightarrow>
                        (case execute_query
                                (committing (insert_risk_score
                                   \<lparr>rs_client_id = client_id,
                                    rs_instance_id = instance_id inst,
                                    rs_agent_id = agent_id,
                                    rs_risk_score = risk_score,
                                    rs_recommended_action = action,
                                    rs_recommended_pool_id = rec_pool,
                                    rs_recommended_mode = rec_mode,
                                    rs_expected_savings_per_hour = expected_savings,
                                    rs_allowed = auto_switch_enabled cfg,
                                    rs_reason = why'\<rparr>)) s of
                           (Inl e, s') \<Rightarrow> (Inl e, s')
                         | (Inr u, s') \<Rightarrow>
                             (Inr \<lparr>d_instance_id = instance_id inst,
                                   d_risk_score = py_round risk_score 4,
                                   d_recommended_action = action,
                                   d_recommended_mode = rec_mode,
                                   d_recommended_pool_id = Some rec_pool,
                                   d_expected_savings_per_hour = py_round expected_savings 6,
                                   d_allowed = auto_switch_enabled cfg,
                                   d_reason = why'\<rparr>, s')))))"

text \<open>
  The \<open>try\<close> block of the endpoint: the configuration, then the disabled gate, the rate gate
  on the count of the agent's recent switches, the dwell gate on the last switch of the
  instance, then the evaluation.  \<open>now\<close> is the database clock (\<open>NOW()\<close>), \<open>utcnow\<close> the
  server's (\<open>datetime.utcnow()\<close>).
\<close>

definition decide ::
  "model_manager \<Rightarrow> int \<Rightarrow> real \<Rightarrow> real \<Rightarrow> string \<Rightarrow> decide_request \<Rightarrow> state
     \<Rightarrow> (error + decision) \<times> state" where
  "decide mm client_id now utcnow agent_id data s =
     (let inst = req_instance data
      in case execute_query (fetching (select_config agent_id client_id)) s of
           (Inl e, s1) \<Rightarrow> (Inl e, s1)
         | (Inr None, s1) \<Rightarrow> (blocked inst Agent_disabled, s1)
         | (Inr (Some cfg), s1) \<Rightarrow>
             if \<not> enabled cfg then (blocked inst Agent_disabled, s1)
             else
               (case execute_query (fetching (select_recent_switches agent_id now)) s1 of
                  (Inl e, s2) \<Rightarrow> (Inl e, s2)
                | (Inr recent_switches, s2) \<Rightarrow>
                    if recent_switches \<ge> max_switches_per_week cfg
                    then (blocked inst
                            (Switch_limit_reached recent_switches (max_switches_per_week cfg)), s2)
                    else
                      (case execute_query (fetching (select_last_switch (instance_id inst))) s2 of
                         (Inl e, s3) \<Rightarrow> (Inl e, s3)
                       | (Inr None, s3) \<Rightarrow> evaluate mm client_id agent_id cfg data s3
                       | (Inr (Some ts), s3) \<Rightarrow>
                           if hours_since utcnow ts < of_int (min_pool_duration_hours cfg)
                           then (blocked inst
                                   (Too_soon_to_switch (hours_since utcnow ts)
                                      (of_int (min_pool_duration_hours cfg))), s3)
                           else evaluate mm client_id agent_id cfg data s3)))"

text \<open>
  The endpoint: an exception of the \<open>try\<close> block is logged as a \<open>decision_error\<close> event and
  answered with HTTP 500 (\<open>Inl\<close>).
\<close>

definition get_decision ::
  "model_manager \<Rightarrow> int \<Rightarrow> real \<Rightarrow> real \<Rightarrow> string \<Rightarrow> decide_request \<Rightarrow> state
     \<Rightarrow> (error + decision) \<times> state" where
  "get_decision mm client_id now utcnow agent_id data s =
     (case decide mm client_id now utcnow agent_id data s of
        (Inl e, s') \<Rightarrow>
          (Inl e, log_system_event
                    \<lparr>ev_event_type = ''decision_error'', ev_severity = ''error'',
                     ev_client_id = Some client_id, ev_agent_id = Some agent_id,
                     ev_instance_id = Some (instance_id (req_instance data))\<rparr> s')
      | (Inr answer, s') \<Rightarrow> (Inr answer, s'))"

section \<open>Switch ledger: \<open>switch_report\<close>\<close>

text \<open>The JSON body of a switch report; the keys read with \<open>.get\<close> are options.\<close>

record old_instance =
  old_instance_id :: string
  old_mode :: string
  old_pool_id :: "string option"

record new_instance =
  new_instance_id :: string
  new_instance_type :: string
  new_region :: string
  new_az :: string
  new_ami_id :: string
  new_mode :: string
  new_pool_id :: "string option"

record snapshot_info =
  used :: bool
  snapshot_id :: "string option"

record prices_info =
  old_spot :: real
  on_demand :: real
  new_spot :: "real option"

record timing_info =
  traffic_switched_at :: real
  new_instance_ready_at :: real
  old_instance_terminated_at :: "real option"

record switch_request =
  trigger :: string
  old_inst :: old_instance
  new_inst :: new_instance
  snapshot :: snapshot_info
  prices :: prices_info
  timing :: timing_info

text \<open>\<open>prices['old_spot'] - prices.get('new_spot', prices['on_demand'])\<close>\<close>

definition savings_impact :: "switch_request \<Rightarrow> real" where
  "savings_impact data =
     old_spot (prices data)
       - (case new_spot (prices data) of None \<Rightarrow> on_demand (prices data) | Some x \<Rightarrow> x)"

text \<open>The row of the first statement, \<open>INSERT INTO switch_events\<close>.\<close>

definition switch_event_row :: "int \<Rightarrow> string \<Rightarrow> switch_request \<Rightarrow> switch_event" where
  "switch_event_row client_id agent_id data =
     \<lparr>se_client_id = client_id,
      se_instance_id = new_instance_id (new_inst data),
      se_agent_id = agent_id,
      se_trigger = trigger data,
      se_from_mode = old_mode (old_inst data),
      se_to_mode = new_mode (new_inst data),
      se_from_pool_id = old_pool_id (old_inst data),
      se_to_pool_id = new_pool_id (new_inst data),
      se_on_demand_price = on_demand (prices data),
      se_old_spot_price = old_spot (prices data),
      se_new_spot_price = (case new_spot (prices data) of None \<Rightarrow> 0 | Some x \<Rightarrow> x),
      se_savings_impact = savings_impact data,
      se_snapshot_used = used (snapshot data),
      se_snapshot_id = snapshot_id (snapshot data),
      se_old_instance_id = old_instance_id (old_inst data),
      se_new_instance_id = new_instance_id (new_inst data),
      se_timestamp = traffic_switched_at (timing data)\<rparr>"

definition insert_switch_event :: "switch_event \<Rightarrow> db \<Rightarrow> db" where
  "insert_switch_event row d = d\<lparr>switch_events := switch_events d @ [row]\<rparr>"

text \<open>
  \<open>UPDATE instances SET is_active = FALSE, terminated_at = %s WHERE id = %s AND
  client_id = %s\<close>
\<close>

definition deactivate_instance :: "real option \<Rightarrow> string \<Rightarrow> int \<Rightarrow> db \<Rightarrow> db" where
  "deactivate_instance terminated_at iid client_id d =
     (case instances d iid of
        None \<Rightarrow> d
      | Some r \<Rightarrow>
          if i_client_id r = client_id
          then d\<lparr>instances :=
                   (instances d)(iid \<mapsto> r\<lparr>i_is_active := False, i_terminated_at := terminated_at\<rparr>)\<rparr>
          else d)"

text \<open>
  \<open>INSERT INTO instances (...) VALUES (...) ON DUPLICATE KEY UPDATE current_mode,
  current_pool_id, spot_price, is_active = TRUE, last_switch_at\<close>: the key is the instance
  id; on an existing row only the five named columns change.
\<close>

definition upsert_instance :: "int \<Rightarrow> string \<Rightarrow> switch_request \<Rightarrow> db \<Rightarrow> db" where
  "upsert_instance client_id agent_id data d =
     (let n = new_inst data;
          spot = (case new_spot (prices data) of None \<Rightarrow> 0 | Some x \<Rightarrow> x)
      in case instances d (new_instance_id n) of
           None \<Rightarrow>
             d\<lparr>instances := (instances d)(new_instance_id n \<mapsto>
                 \<lparr>i_client_id = client_id,
                  i_agent_id = agent_id,
                  i_instance_type = new_instance_type n,
                  i_region = new_region n,
                  i_az = new_az n,
                  i_ami_id = new_ami_id n,
                  i_current_mode = new_mode n,
                  i_current_pool_id = new_pool_id n,
                  i_spot_price = spot,
                  i_is_active = True,
                  i_installed_at = Some (new_instance_ready_at (timing data)),
                  i_last_switch_at = Some (traffic_switched_at (timing data)),
                  i_terminated_at = None\<rparr>)\<rparr>
         | Some r \<Rightarrow>
             d\<lparr>instances := (instances d)(new_instance_id n \<mapsto>
                 r\<lparr>i_current_mode := new_mode n,
                   i_current_pool_id := new_pool_id n,
                   i_spot_price := spot,
                   i_is_active := True,
                   i_last_switch_at := Some (traffic_switched_at (timing data))\<rparr>)\<rparr>)"

text \<open>\<open>UPDATE clients SET total_savings = total_savings + %s WHERE id = %s\<close>\<close>

definition add_total_savings :: "real \<Rightarrow> int \<Rightarrow> db \<Rightarrow> db" where
  "add_total_savings amount client_id d =
     (case clients d client_id of
        None \<Rightarrow> d
      | Some c \<Rightarrow> d\<lparr>clients := (clients d)(client_id \<mapsto> c\<lparr>total_savings := total_savings c + amount\<rparr>)\<rparr>)"

text \<open>
  The \<open>try\<close> block: four statements, each its own \<open>execute_query\<close> (its own connection and
  commit), the fourth only when the savings impact is positive; then the
  \<open>switch_completed\<close> event.
\<close>

definition report_switch :: "int \<Rightarrow> string \<Rightarrow> switch_request \<Rightarrow> state \<Rightarrow> (error + unit) \<times> state" where
  "report_switch client_id agent_id data s =
     (case execute_query
             (committing (insert_switch_event (switch_event_row client_id agent_id data))) s of
        (Inl e, s1) \<Rightarrow> (Inl e, s1)
      | (Inr u1, s1) \<Rightarrow>
          (case execute_query
                  (committing (deactivate_instance (old_instance_terminated_at (timing data))
                                 (old_instance_id (old_inst data)) client_id)) s1 of
             (Inl e, s2) \<Rightarrow> (Inl e, s2)
           | (Inr u2, s2) \<Rightarrow>
               (case execute_query (committing (upsert_instance client_id agent_id data)) s2 of
                  (Inl e, s3) \<Rightarrow> (Inl e, s3)
                | (Inr u3, s3) \<Rightarrow>
                    (let completed =
                           \<lparr>ev_event_type = ''switch_completed'', ev_severity = ''info'',
                            ev_client_id = Some client_id, ev_agent_id = Some agent_id,
                            ev_instance_id = Some (new_instance_id (new_inst data))\<rparr>
                     in if savings_impact data > 0 then
                          (case execute_query
                                  (committing (add_total_savings (savings_impact data * 24)
                                                 client_id)) s3 of
                             (Inl e, s4) \<Rightarrow> (Inl e, s4)
                           | (Inr u4, s4) \<Rightarrow> (Inr (), log_system_event completed s4))
                        else (Inr (), log_system_event completed s3)))))"

text \<open>The endpoint: an exception is logged as \<open>switch_report_failed\<close> and answered with 500.\<close>

definition switch_report :: "int \<Rightarrow> string \<Rightarrow> switch_request \<Rightarrow> state \<Rightarrow> (error + unit) \<times> state" where
  "switch_report client_id agent_id data s =
     (case report_switch client_id agent_id data s of
        (Inl e, s') \<Rightarrow>
          (Inl e, log_system_event
                    \<lparr>ev_event_type = ''switch_report_failed'', ev_severity = ''error'',
                     ev_client_id = Some client_id, ev_agent_id = Some agent_id,
                     ev_instance_id = None\<rparr> s')
      | (Inr u, s') \<Rightarrow> (Inr u, s'))"

text \<open>
  The statements of a switch report in the order the endpoint runs them, each through its
  own \<open>execute_query\<close>.
\<close>

definition switch_statements :: "int \<Rightarrow> string \<Rightarrow> switch_request \<Rightarrow> (db \<Rightarrow> db) list" where
  "switch_statements client_id agent_id data =
     [insert_switch_event (switch_event_row client_id agent_id data),
      deactivate_instance (old_instance_terminated_at (timing data))
        (old_instance_id (old_inst data)) client_id,
      upsert_instance client_id agent_id data]
     @ (if savings_impact data > 0
        then [add_total_savings (savings_impact data * 24) client_id] else [])"

section \<open>Command queue: \<open>mark_command_executed\<close>\<close>

text \<open>
  \<open>UPDATE pending_switch_commands SET executed_at = NOW() WHERE id = %s AND agent_id = %s\<close>;
  \<open>now\<close> is the database clock at the call.
\<close>

definition update_executed_at :: "real \<Rightarrow> nat \<Rightarrow> string \<Rightarrow> db \<Rightarrow> db" where
  "update_executed_at now command_id agent_id d =
     d\<lparr>pending_switch_commands :=
         map (\<lambda>c. if pc_id c = command_id \<and> pc_agent_id c = agent_id
                   then c\<lparr>pc_executed_at := Some now\<rparr> else c)
             (pending_switch_commands d)\<rparr>"

text \<open>The endpoint: the one statement; an exception is answered with 500 (and not logged).\<close>

definition mark_command_executed :: "real \<Rightarrow> string \<Rightarrow> nat \<Rightarrow> state \<Rightarrow> (error + unit) \<times> state" where
  "mark_command_executed now agent_id command_id s =
     (case execute_query (committing (update_executed_at now command_id agent_id)) s of
        (Inl e, s') \<Rightarrow> (Inl e, s')
      | (Inr u, s') \<Rightarrow> (Inr (), s'))"

section \<open>Notions used in the properties\<close>

text \<open>
  The reasons of the three guard short-circuits, and the answers that carry the reason of
  the rate gate and of the dwell gate.
\<close>

definition gate_reason :: "reason \<Rightarrow> bool" where
  "gate_reason why =
     (case why of
        Agent_disabled \<Rightarrow> True
      | Switch_limit_reached n limit \<Rightarrow> True
      | Too_soon_to_switch h m \<Rightarrow> True
      | _ \<Rightarrow> False)"

definition rate_rejected :: "error + decision \<Rightarrow> bool" where
  "rate_rejected res =
     (case res of
        Inl e \<Rightarrow> False
      | Inr a \<Rightarrow> (case d_reason a of Switch_limit_reached n limit \<Rightarrow> True | _ \<Rightarrow> False))"

definition dwell_rejected :: "error + decision \<Rightarrow> bool" where
  "dwell_rejected res =
     (case res of
        Inl e \<Rightarrow> False
      | Inr a \<Rightarrow> (case d_reason a of Too_soon_to_switch h m \<Rightarrow> True | _ \<Rightarrow> False))"

text \<open>
  What a decide call leaves in the audit table: nothing when it raises or answers with a
  guard's reason (then the answer is stay, risk 0, not allowed), and otherwise exactly one
  new row, for the instance and with the action of the answer.
\<close>

definition audited :: "db \<Rightarrow> error + decision \<Rightarrow> db \<Rightarrow> bool" where
  "audited d res d' =
     (case res of
        Inl e \<Rightarrow> risk_scores d' = risk_scores d
      | Inr a \<Rightarrow>
          if gate_reason (d_reason a)
          then risk_scores d' = risk_scores d \<and> d_recommended_action a = ''stay''
               \<and> d_risk_score a = 0 \<and> \<not> d_allowed a
          else (\<exists>row. risk_scores d' = risk_scores d @ [row]
                  \<and> rs_instance_id row = d_instance_id a
                  \<and> rs_recommended_action row = d_recommended_action a))"

text \<open>
  The pool \<open>get_decision\<close> starts from, \<open>instance.get('current_pool_id', 'unknown')\<close>, and
  the same request with another pool as the instance's current pool.
\<close>

definition recorded_pool :: "decide_request \<Rightarrow> string" where
  "recorded_pool data =
     (case current_pool_id (req_instance data) of None \<Rightarrow> ''unknown'' | Some p \<Rightarrow> p)"

definition as_current :: "string \<Rightarrow> decide_request \<Rightarrow> decide_request" where
  "as_current pool data =
     data\<lparr>req_instance := (req_instance data)\<lparr>current_pool_id := Some pool\<rparr>\<rparr>"

section \<open>Concrete inputs\<close>

text \<open>
  The scenario of the specification: a loaded model whose pool \<open>pool-a\<close> has
  \<open>ratio_p50 = 0.5\<close> and \<open>ratio_p92 = 0.9\<close>, with the absolute-high threshold at \<open>0.95\<close>.
\<close>

definition scenario_manager :: model_manager where
  "scenario_manager =
     \<lparr>loaded = True,
      pool_context = [''pool-a'' \<mapsto> \<lparr>ratio_p50 = 5 / 10, ratio_p92 = 9 / 10\<rparr>],
      config = \<lparr>ratio_spike_threshold = 2 / 10, ratio_absolute_high = 95 / 100,
                ratio_safe_return = 4 / 10\<rparr>\<rparr>"

text \<open>A snapshot whose first pool is not its cheapest, and one that lists a pool at price 0.\<close>

definition stale_pools :: "spot_pool list" where
  "stale_pools =
     [\<lparr>pool_id = ''pool-a'', price = Some (5 / 10)\<rparr>, \<lparr>pool_id = ''pool-b'', price = Some (3 / 10)\<rparr>]"

definition zero_pools :: "spot_pool list" where
  "zero_pools =
     [\<lparr>pool_id = ''pool-b'', price = Some (3 / 10)\<rparr>, \<lparr>pool_id = ''pool-a'', price = Some 0\<rparr>]"

text \<open>An empty store, and one holding a command that was acknowledged at time 100.\<close>

definition empty_db :: db where
  "empty_db =
     \<lparr>agents = Map.empty, agent_configs = Map.empty, clients = Map.empty,
      instances = Map.empty, switch_events = [], risk_scores = [],
      pending_switch_commands = [], system_events = []\<rparr>"

definition acknowledged_db :: db where
  "acknowledged_db =
     empty_db\<lparr>pending_switch_commands :=
       [\<lparr>pc_id = 7, pc_agent_id = ''agent-1'', pc_instance_id = ''i-0a1'',
         pc_target_mode = ''ondemand'', pc_target_pool_id = None,
         pc_created_at = 50, pc_executed_at = Some 100\<rparr>]\<rparr>"

text \<open>
  A store with one client, its agent (at most 2 switches a week, at least 1 hour on a pool)
  and its running instance \<open>i-old\<close>; a report of the switch from
  \<open>i-old\<close> to \<open>i-new\<close> that saves 0.2 per hour; and the store after the report was
  applied once and twice.
\<close>

definition ledger_db :: db where
  "ledger_db =
     empty_db\<lparr>agents := [''agent-1'' \<mapsto>
                \<lparr>a_client_id = 1, a_enabled = True, a_auto_switch_enabled = True\<rparr>],
              agent_configs := [''agent-1'' \<mapsto>
                \<lparr>ac_min_savings_percent = 10, ac_risk_threshold = 7 / 10,
                 ac_max_switches_per_week = 2, ac_min_pool_duration_hours = 1\<rparr>],
              clients := [1 \<mapsto> \<lparr>total_savings = 0\<rparr>],
              instances := [''i-old'' \<mapsto>
                \<lparr>i_client_id = 1, i_agent_id = ''agent-1'', i_instance_type = ''m5.large'',
                 i_region = ''ap-south-1'', i_az = ''ap-south-1a'', i_ami_id = ''ami-0a1'',
                 i_current_mode = ''spot'', i_current_pool_id = Some ''pool-a'',
                 i_spot_price = 5 / 10, i_is_active = True, i_installed_at = Some 10,
                 i_last_switch_at = None, i_terminated_at = None\<rparr>]\<rparr>"

definition example_switch :: switch_request where
  "example_switch =
     \<lparr>trigger = ''manual'',
      old_inst = \<lparr>old_instance_id = ''i-old'', old_mode = ''spot'', old_pool_id = Some ''pool-a''\<rparr>,
      new_inst = \<lparr>new_instance_id = ''i-new'', new_instance_type = ''m5.large'',
                  new_region = ''ap-south-1'', new_az = ''ap-south-1a'', new_ami_id = ''ami-0a1'',
                  new_mode = ''spot'', new_pool_id = Some ''pool-b''\<rparr>,
      snapshot = \<lparr>used = False, snapshot_id = None\<rparr>,
      prices = \<lparr>old_spot = 5 / 10, on_demand = 1, new_spot = Some (3 / 10)\<rparr>,
      timing = \<lparr>traffic_switched_at = 1000, new_instance_ready_at = 990,
                old_instance_terminated_at = Some 1010\<rparr>\<rparr>"

definition reported_once :: db where
  "reported_once = snd (snd (switch_report 1 ''agent-1'' example_switch ([], ledger_db)))"

definition reported_twice :: db where
  "reported_twice = snd (snd (switch_report 1 ''agent-1'' example_switch ([], reported_once)))"

text \<open>
  Decide requests for the instances \<open>i-old\<close> and \<open>i-new\<close> over the snapshot above, one for
  \<open>i-old\<close> with an empty snapshot, and the configuration row of \<open>agent-1\<close>.
\<close>

definition old_request :: decide_request where
  "old_request =
     \<lparr>req_instance = \<lparr>instance_id = ''i-old'', current_mode = Some ''spot'',
                      current_pool_id = Some ''pool-a''\<rparr>,
      req_pricing = \<lparr>spot_pools = stale_pools, on_demand_price = 1\<rparr>\<rparr>"

definition new_request :: decide_request where
  "new_request =
     \<lparr>req_instance = \<lparr>instance_id = ''i-new'', current_mode = Some ''spot'',
                      current_pool_id = Some ''pool-b''\<rparr>,
      req_pricing = \<lparr>spot_pools = stale_pools, on_demand_price = 1\<rparr>\<rparr>"

definition empty_request :: decide_request where
  "empty_request =
     \<lparr>req_instance = \<lparr>instance_id = ''i-old'', current_mode = Some ''spot'',
                      current_pool_id = Some ''pool-a''\<rparr>,
      req_pricing = \<lparr>spot_pools = [], on_demand_price = 1\<rparr>\<rparr>"

text \<open>
  Requests for \<open>i-old\<close> whose recorded pool \<open>pool-c\<close> the snapshot does not list, and whose
  recorded pool \<open>pool-a\<close> the snapshot lists at price 0.
\<close>

definition stale_request :: decide_request where
  "stale_request =
     \<lparr>req_instance = \<lparr>instance_id = ''i-old'', current_mode = Some ''spot'',
                      current_pool_id = Some ''pool-c''\<rparr>,
      req_pricing = \<lparr>spot_pools = stale_pools, on_demand_price = 1\<rparr>\<rparr>"

definition zero_request :: decide_request where
  "zero_request =
     \<lparr>req_instance = \<lparr>instance_id = ''i-old'', current_mode = Some ''spot'',
                      current_pool_id = Some ''pool-a''\<rparr>,
      req_pricing = \<lparr>spot_pools = zero_pools, on_demand_price = 1\<rparr>\<rparr>"

definition example_config :: config_data where
  "example_config =
     \<lparr>enabled = True, auto_switch_enabled = True, min_savings_percent = 10,
      risk_threshold = 7 / 10, max_switches_per_week = 2, min_pool_duration_hours = 1\<rparr>"

section \<open>Logging and persistence faults\<close>

text \<open>Logging touches the \<open>system_events\<close> table only, whatever the faults.\<close>

lemma log_system_event_tables:
  "\<exists>evs. snd (log_system_event ev (faults, d)) = d\<lparr>system_events := system_events d @ evs\<rparr>"
proof (induction ev "(faults, d)" arbitrary: faults d rule: log_system_event.induct)
  case (1 ev d)
  show ?case by (auto simp: insert_system_event_def intro: exI [of _ "[ev]"])
next
  case (2 ev faults d)
  show ?case by (auto simp: insert_system_event_def intro: exI [of _ "[ev]"])
next
  case (3 ev faults d)
  then show ?case by simp
qed

lemma log_system_event_frame:
  "(snd (log_system_event ev (faults, d)))\<lparr>system_events := evs\<rparr> = d\<lparr>system_events := evs\<rparr>"
  using log_system_event_tables [of ev faults d] by auto

lemma log_system_event_frame2:
  "(snd (log_system_event ev s))\<lparr>system_events := evs\<rparr> = (snd s)\<lparr>system_events := evs\<rparr>"
  by (cases s) (simp add: log_system_event_frame)

lemma log_system_event_pending [simp]:
  "pending_switch_commands (snd (log_system_event ev (faults, d))) = pending_switch_commands d"
  using log_system_event_tables [of ev faults d] by auto

lemma log_system_event_risk_scores [simp]:
  "risk_scores (snd (log_system_event ev s)) = risk_scores (snd s)"
  using log_system_event_tables [of ev "fst s" "snd s"] by auto

lemma log_risk_scoresD:
  "log_system_event ev (fs, d) = (fs', d') \<Longrightarrow> risk_scores d' = risk_scores d"
  using log_system_event_risk_scores [of ev "(fs, d)"] by simp

lemma fetch_no_fault [simp]: "execute_query (fetching q) ([], d) = (Inr (q d), [], d)"
  by (simp add: execute_query_def fetching_def)

lemma commit_no_fault [simp]: "execute_query (committing w) ([], d) = (Inr (), [], w d)"
  by (simp add: execute_query_def committing_def)

lemma fetch_risk_scores:
  "execute_query (fetching q) (fs, d) = (res, fs', d') \<Longrightarrow> risk_scores d' = risk_scores d"
  by (auto simp: execute_query_def fetching_def split: list.splits bool.splits
      dest: log_risk_scoresD)

lemma commit_failed_risk_scores:
  "execute_query (committing w) (fs, d) = (Inl e, fs', d') \<Longrightarrow> risk_scores d' = risk_scores d"
  by (auto simp: execute_query_def committing_def split: list.splits bool.splits
      dest: log_risk_scoresD)

lemma commit_done:
  "execute_query (committing w) (fs, d) = (Inr u, fs', d') \<Longrightarrow> d' = w d"
  by (auto simp: execute_query_def committing_def split: list.splits bool.splits)

section \<open>Risk scorer\<close>

text \<open>
  C4, as stated: on-demand 1.00, spot 0.95, \<open>ratio_p50 = 0.5\<close>, \<open>ratio_p92 = 0.9\<close>,
  absolute-high 0.95 gives state \<open>event\<close> with score 0.9.  It does not: the ratio 0.95 is
  not strictly greater than the threshold 0.95, so the first branch does not fire.  (The
  division by 1.00 is exact in floating point as well: the ratio is the very number the
  threshold is.)
\<close>

theorem scenario_is_high_risk_counterexample:
  "score_and_state (get_risk_score scenario_manager ''pool-a'' (Some (95 / 100)) (5 / 100) 1)
     \<noteq> Some (9 / 10, ''event'')"
  by (simp add: scenario_manager_def get_risk_score_def price_ratio_def score_and_state_def)

text \<open>
  C4, amended: in that scenario, whatever the spike and safe-return thresholds and the other
  pools' statistics, the scorer computes the ratio 0.95 and returns state \<open>high-risk\<close> with
  score 0.8, by the comparison with \<open>ratio_p92\<close>.
\<close>

theorem scenario_is_high_risk:
  "get_risk_score
     \<lparr>loaded = True,
      pool_context = stats(pid \<mapsto> \<lparr>ratio_p50 = 5 / 10, ratio_p92 = 9 / 10\<rparr>),
      config = \<lparr>ratio_spike_threshold = spike, ratio_absolute_high = 95 / 100,
                ratio_safe_return = safe\<rparr>\<rparr>
     pid (Some (95 / 100)) current_discount 1
   = Inr (8 / 10, ''high-risk'', Ratio_above_p92 (95 / 100) (9 / 10))"
  by (simp add: get_risk_score_def price_ratio_def)

theorem scenario_is_high_risk_witness:
  "get_risk_score scenario_manager ''pool-a'' (Some (95 / 100)) (5 / 100) 1
   = Inr (8 / 10, ''high-risk'', Ratio_above_p92 (95 / 100) (9 / 10))"
  using scenario_is_high_risk [of Map.empty "''pool-a''" "2 / 10" "4 / 10" "5 / 100"]
  by (simp add: scenario_manager_def)

text \<open>
  C6: the risk state is monotone in the price ratio.  For one model (the same thresholds and
  pool statistics) and one pool, if the ratio of the first call is less than the ratio of
  the second, the state of the second is not of lower risk, in the order
  safe-to-return < normal < high-risk < event.
\<close>

theorem risk_state_monotone:
  assumes "price_ratio p1 od1 = Inr r1" and "price_ratio p2 od2 = Inr r2" and "r1 < r2"
    and "get_risk_score mm pid p1 d1 od1 = Inr (score1, st1, why1)"
    and "get_risk_score mm pid p2 d2 od2 = Inr (score2, st2, why2)"
  shows "state_rank st1 \<le> state_rank st2"
  using assms
  by (auto simp: get_risk_score_def state_rank_def Let_def split: if_splits option.splits)

theorem risk_state_monotone_witness:
  "price_ratio (Some (3 / 10)) 1 = Inr (3 / 10)
   \<and> price_ratio (Some (95 / 100)) 1 = Inr (95 / 100)
   \<and> (3 / 10 :: real) < 95 / 100
   \<and> get_risk_score scenario_manager ''pool-a'' (Some (3 / 10)) (7 / 10) 1
       = Inr (2 / 10, ''safe-to-return'', Ratio_below_safe_threshold (3 / 10) (4 / 10))
   \<and> get_risk_score scenario_manager ''pool-a'' (Some (95 / 100)) (5 / 100) 1
       = Inr (8 / 10, ''high-risk'', Ratio_above_p92 (95 / 100) (9 / 10))
   \<and> state_rank ''safe-to-return'' \<le> state_rank ''high-risk''"
proof -
  have h1: "price_ratio (Some (3 / 10)) 1 = Inr (3 / 10)"
    by (simp add: price_ratio_def)
  have h2: "price_ratio (Some (95 / 100)) 1 = Inr (95 / 100)"
    by (simp add: price_ratio_def)
  have h3: "(3 / 10 :: real) < 95 / 100"
    by simp
  have h4: "get_risk_score scenario_manager ''pool-a'' (Some (3 / 10)) (7 / 10) 1
       = Inr (2 / 10, ''safe-to-return'', Ratio_below_safe_threshold (3 / 10) (4 / 10))"
    by (simp add: scenario_manager_def get_risk_score_def price_ratio_def)
  have h5: "get_risk_score scenario_manager ''pool-a'' (Some (95 / 100)) (5 / 100) 1
       = Inr (8 / 10, ''high-risk'', Ratio_above_p92 (95 / 100) (9 / 10))"
    by (simp add: scenario_manager_def get_risk_score_def price_ratio_def)
  from risk_state_monotone [OF h1 h2 h3 h4 h5] h1 h2 h3 h4 h5 show ?thesis
    by simp
qed

section \<open>Command queue\<close>

text \<open>
  C2, as stated: re-acknowledging a command whose \<open>executed_at\<close> is set leaves the command,
  and the value of \<open>executed_at\<close>, unchanged.  It does not: the \<open>UPDATE\<close> has no
  \<open>executed_at IS NULL\<close> condition, so a command acknowledged at time 100 and acknowledged
  again at time 200 carries \<open>executed_at = 200\<close>.
\<close>

theorem reacknowledge_overwrites_counterexample:
  "map pc_executed_at (pending_switch_commands acknowledged_db) = [Some 100]
   \<and> fst (mark_command_executed 200 ''agent-1'' 7 ([], acknowledged_db)) = Inr ()
   \<and> map pc_executed_at (pending_switch_commands
        (snd (snd (mark_command_executed 200 ''agent-1'' 7 ([], acknowledged_db))))) = [Some 200]
   \<and> pending_switch_commands (snd (snd (mark_command_executed 200 ''agent-1'' 7 ([], acknowledged_db))))
       \<noteq> pending_switch_commands acknowledged_db"
  by (simp add: acknowledged_db_def empty_db_def mark_command_executed_def execute_query_def
      committing_def update_executed_at_def)

text \<open>
  C2, amended: acknowledging never clears \<open>executed_at\<close>, and it does not fail on a command
  that is already executed (it fails exactly when the store does); but each successful
  acknowledgment sets \<open>executed_at\<close> of the agent's command with that id to the time of the
  call, whether the command was pending or already executed, so re-acknowledging overwrites
  the earlier value.  The command's other fields, and every other command, stay as they
  were, and a call that fails changes no command.
\<close>

theorem reacknowledge_overwrites:
  assumes "mark_command_executed now agent_id command_id (faults, d) = (res, faults', d')"
    and "i < length (pending_switch_commands d)"
    and "pending_switch_commands d ! i = c"
  shows "res = (if faults \<noteq> [] \<and> hd faults then Inl DatabaseError else Inr ())
         \<and> length (pending_switch_commands d') = length (pending_switch_commands d)
         \<and> pending_switch_commands d' ! i =
             (if res = Inr () \<and> pc_id c = command_id \<and> pc_agent_id c = agent_id
              then c\<lparr>pc_executed_at := Some now\<rparr> else c)
         \<and> (pc_executed_at c \<noteq> None \<longrightarrow> pc_executed_at (pending_switch_commands d' ! i) \<noteq> None)"
proof (cases "\<exists>rest. faults = True # rest")
  case True
  then obtain rest where f: "faults = True # rest" by blast
  have "d' = snd (log_system_event database_error_event (rest, d))" and "res = Inl DatabaseError"
    using assms(1) by (auto simp: f mark_command_executed_def execute_query_def)
  then show ?thesis using assms(2,3) f by simp
next
  case False
  then have n: "faults = [] \<or> (\<exists>rest. faults = False # rest)"
    by (cases faults) auto
  then have "d' = update_executed_at now command_id agent_id d" and "res = Inr ()"
    using assms(1)
    by (auto simp: mark_command_executed_def execute_query_def committing_def)
  then show ?thesis using assms(2,3) n
    by (auto simp: update_executed_at_def)
qed

theorem reacknowledge_overwrites_witness:
  "mark_command_executed 200 ''agent-1'' 7 ([], acknowledged_db)
     = (Inr (), [], update_executed_at 200 7 ''agent-1'' acknowledged_db)
   \<and> (0::nat) < length (pending_switch_commands acknowledged_db)
   \<and> pc_executed_at (pending_switch_commands acknowledged_db ! 0) = Some 100
   \<and> pc_executed_at (pending_switch_commands (update_executed_at 200 7 ''agent-1'' acknowledged_db) ! 0)
       = Some 200"
proof -
  have h1: "mark_command_executed 200 ''agent-1'' 7 ([], acknowledged_db)
     = (Inr (), [], update_executed_at 200 7 ''agent-1'' acknowledged_db)"
    by (simp add: mark_command_executed_def execute_query_def committing_def)
  have h2: "(0::nat) < length (pending_switch_commands acknowledged_db)"
    by (simp add: acknowledged_db_def empty_db_def)
  have h4: "pc_executed_at (pending_switch_commands acknowledged_db ! 0) = Some 100"
    by (simp add: acknowledged_db_def empty_db_def)
  from reacknowledge_overwrites [OF h1 h2 refl] h1 h2 h4 show ?thesis
    by (simp add: acknowledged_db_def empty_db_def)
qed

section \<open>Switch ledger\<close>

lemma savings_example: "savings_impact example_switch = 2 / 10"
  by (simp add: savings_impact_def example_switch_def)

lemma report_switch_no_fault:
  "report_switch client_id agent_id data ([], d) =
     (Inr (), [], insert_system_event
        \<lparr>ev_event_type = ''switch_completed'', ev_severity = ''info'',
         ev_client_id = Some client_id, ev_agent_id = Some agent_id,
         ev_instance_id = Some (new_instance_id (new_inst data))\<rparr>
        (fold (\<lambda>q. q) (switch_statements client_id agent_id data) d))"
  by (simp add: report_switch_def execute_query_def committing_def switch_statements_def Let_def)

lemma switch_report_no_fault:
  "switch_report client_id agent_id data ([], d) =
     (Inr (), [], insert_system_event
        \<lparr>ev_event_type = ''switch_completed'', ev_severity = ''info'',
         ev_client_id = Some client_id, ev_agent_id = Some agent_id,
         ev_instance_id = Some (new_instance_id (new_inst data))\<rparr>
        (fold (\<lambda>q. q) (switch_statements client_id agent_id data) d))"
  by (simp add: switch_report_def report_switch_no_fault)

lemma statements_switch_events:
  "switch_events (fold (\<lambda>q. q) (switch_statements client_id agent_id data) d)
     = switch_events d @ [switch_event_row client_id agent_id data]"
  by (simp add: switch_statements_def insert_switch_event_def deactivate_instance_def
      upsert_instance_def add_total_savings_def Let_def split: option.splits)

lemma statements_clients:
  "clients (fold (\<lambda>q. q) (switch_statements client_id agent_id data) d)
     = (if savings_impact data > 0
        then clients (add_total_savings (savings_impact data * 24) client_id d)
        else clients d)"
  by (simp add: switch_statements_def insert_switch_event_def deactivate_instance_def
      upsert_instance_def add_total_savings_def Let_def split: option.splits)

lemma statements_instances:
  "instances (fold (\<lambda>q. q) (switch_statements client_id agent_id data) d)
     = instances (upsert_instance client_id agent_id data
         (deactivate_instance (old_instance_terminated_at (timing data))
            (old_instance_id (old_inst data)) client_id d))"
  by (simp add: switch_statements_def insert_switch_event_def deactivate_instance_def
      upsert_instance_def add_total_savings_def Let_def split: option.splits)

lemma statements_agents:
  "agents (fold (\<lambda>q. q) (switch_statements client_id agent_id data) d) = agents d"
  "agent_configs (fold (\<lambda>q. q) (switch_statements client_id agent_id data) d) = agent_configs d"
  "risk_scores (fold (\<lambda>q. q) (switch_statements client_id agent_id data) d) = risk_scores d"
  by (simp_all add: switch_statements_def insert_switch_event_def deactivate_instance_def
      upsert_instance_def add_total_savings_def Let_def split: option.splits)

lemma instances_converge:
  assumes "old_instance_id (old_inst data) \<noteq> new_instance_id (new_inst data)"
    and "instances d1 = instances (upsert_instance client_id agent_id data
         (deactivate_instance (old_instance_terminated_at (timing data))
            (old_instance_id (old_inst data)) client_id d))"
  shows "instances (upsert_instance client_id agent_id data
         (deactivate_instance (old_instance_terminated_at (timing data))
            (old_instance_id (old_inst data)) client_id d1)) = instances d1"
  using assms
  by (auto simp: deactivate_instance_def upsert_instance_def Let_def fun_upd_twist
      split: option.splits if_splits)

lemma reported_once_eq:
  "reported_once =
      insert_system_event
        \<lparr>ev_event_type = ''switch_completed'', ev_severity = ''info'',
         ev_client_id = Some 1, ev_agent_id = Some ''agent-1'',
         ev_instance_id = Some (new_instance_id (new_inst example_switch))\<rparr>
        (fold (\<lambda>q. q) (switch_statements 1 ''agent-1'' example_switch) ledger_db)"
  by (simp add: reported_once_def switch_report_no_fault)

lemma reported_twice_eq:
  "reported_twice =
      insert_system_event
        \<lparr>ev_event_type = ''switch_completed'', ev_severity = ''info'',
         ev_client_id = Some 1, ev_agent_id = Some ''agent-1'',
         ev_instance_id = Some (new_instance_id (new_inst example_switch))\<rparr>
        (fold (\<lambda>q. q) (switch_statements 1 ''agent-1'' example_switch) reported_once)"
  by (simp add: reported_twice_def switch_report_no_fault)

lemma reported_once_events:
  "switch_events reported_once = [switch_event_row 1 ''agent-1'' example_switch]"
  by (simp add: reported_once_eq insert_system_event_def statements_switch_events
      ledger_db_def empty_db_def)

lemma reported_twice_events:
  "switch_events reported_twice
     = [switch_event_row 1 ''agent-1'' example_switch, switch_event_row 1 ''agent-1'' example_switch]"
  by (simp add: reported_twice_eq insert_system_event_def statements_switch_events
      reported_once_events)

text \<open>
  C3, as stated: applying a switch report twice leaves the Instance table, the ledger and
  the client's savings total as one application does.  It does not: the \<open>INSERT\<close> into
  \<open>switch_events\<close> has no key to collide on and the savings \<open>UPDATE\<close> adds on every
  call, so the replay leaves two ledger rows and twice the savings (9.6 instead of 4.8).
\<close>

theorem replayed_report_counterexample:
  "switch_events reported_once = [switch_event_row 1 ''agent-1'' example_switch]
   \<and> switch_events reported_twice
       = [switch_event_row 1 ''agent-1'' example_switch, switch_event_row 1 ''agent-1'' example_switch]
   \<and> switch_events reported_twice \<noteq> switch_events reported_once
   \<and> map_option total_savings (clients reported_once 1) = Some (48 / 10)
   \<and> map_option total_savings (clients reported_twice 1) = Some (96 / 10)"
proof -
  have once: "reported_once =
      insert_system_event
        \<lparr>ev_event_type = ''switch_completed'', ev_severity = ''info'',
         ev_client_id = Some 1, ev_agent_id = Some ''agent-1'',
         ev_instance_id = Some (new_instance_id (new_inst example_switch))\<rparr>
        (fold (\<lambda>q. q) (switch_statements 1 ''agent-1'' example_switch) ledger_db)"
    by (simp add: reported_once_def switch_report_no_fault)
  have twice: "reported_twice =
      insert_system_event
        \<lparr>ev_event_type = ''switch_completed'', ev_severity = ''info'',
         ev_client_id = Some 1, ev_agent_id = Some ''agent-1'',
         ev_instance_id = Some (new_instance_id (new_inst example_switch))\<rparr>
        (fold (\<lambda>q. q) (switch_statements 1 ''agent-1'' example_switch) reported_once)"
    by (simp add: reported_twice_def switch_report_no_fault)
  have e1: "switch_events reported_once = [switch_event_row 1 ''agent-1'' example_switch]"
    by (simp add: once insert_system_event_def statements_switch_events ledger_db_def empty_db_def)
  have e2: "switch_events reported_twice
       = [switch_event_row 1 ''agent-1'' example_switch, switch_event_row 1 ''agent-1'' example_switch]"
    by (simp add: twice insert_system_event_def statements_switch_events e1)
  have c1: "clients reported_once = [1 \<mapsto> \<lparr>total_savings = 48 / 10\<rparr>]"
    by (simp add: once insert_system_event_def statements_clients savings_example
        add_total_savings_def ledger_db_def empty_db_def)
  have c2: "clients reported_twice = [1 \<mapsto> \<lparr>total_savings = 96 / 10\<rparr>]"
    by (simp add: twice insert_system_event_def statements_clients savings_example
        add_total_savings_def c1)
  show ?thesis
    by (simp add: e1 e2 c1 c2)
qed

text \<open>
  C3, amended: the replay converges on the Instance table only.  For a report whose old and
  new instance ids differ, applying it twice (no persistence fault) leaves the Instance
  table as one application does, since the upsert keys on the instance id; every
  application appends one ledger row and, when the savings impact is positive, adds
  \<open>savings_impact * 24\<close> to the client's total once more.
\<close>

theorem replayed_report_converges_on_instances:
  assumes "old_instance_id (old_inst data) \<noteq> new_instance_id (new_inst data)"
    and "switch_report client_id agent_id data ([], d) = (res1, faults1, once)"
    and "switch_report client_id agent_id data ([], once) = (res2, faults2, twice)"
  shows "instances twice = instances once
         \<and> switch_events twice = switch_events once @ [switch_event_row client_id agent_id data]
         \<and> clients twice =
             (if savings_impact data > 0
              then clients (add_total_savings (savings_impact data * 24) client_id once)
              else clients once)"
proof -
  let ?done = "\<lparr>ev_event_type = ''switch_completed'', ev_severity = ''info'',
         ev_client_id = Some client_id, ev_agent_id = Some agent_id,
         ev_instance_id = Some (new_instance_id (new_inst data))\<rparr>"
  have once: "once = insert_system_event ?done
        (fold (\<lambda>q. q) (switch_statements client_id agent_id data) d)"
    using assms(2) by (simp add: switch_report_no_fault)
  have twice: "twice = insert_system_event ?done
        (fold (\<lambda>q. q) (switch_statements client_id agent_id data) once)"
    using assms(3) by (simp add: switch_report_no_fault)
  have i1: "instances once = instances (upsert_instance client_id agent_id data
         (deactivate_instance (old_instance_terminated_at (timing data))
            (old_instance_id (old_inst data)) client_id d))"
    by (simp add: once insert_system_event_def statements_instances)
  have i2: "instances twice = instances (upsert_instance client_id agent_id data
         (deactivate_instance (old_instance_terminated_at (timing data))
            (old_instance_id (old_inst data)) client_id once))"
    by (simp add: twice insert_system_event_def statements_instances)
  have "instances twice = instances once"
    using instances_converge [OF assms(1) i1] i2 by simp
  moreover have "switch_events twice
      = switch_events once @ [switch_event_row client_id agent_id data]"
    by (simp add: twice insert_system_event_def statements_switch_events)
  moreover have "clients twice =
             (if savings_impact data > 0
              then clients (add_total_savings (savings_impact data * 24) client_id once)
              else clients once)"
    by (simp add: twice insert_system_event_def statements_clients)
  ultimately show ?thesis by simp
qed

theorem replayed_report_converges_on_instances_witness:
  "old_instance_id (old_inst example_switch) \<noteq> new_instance_id (new_inst example_switch)
   \<and> instances reported_twice = instances reported_once
   \<and> switch_events reported_twice
       = switch_events reported_once @ [switch_event_row 1 ''agent-1'' example_switch]
   \<and> clients reported_twice
       = clients (add_total_savings (savings_impact example_switch * 24) 1 reported_once)"
proof -
  have h1: "old_instance_id (old_inst example_switch) \<noteq> new_instance_id (new_inst example_switch)"
    by (simp add: example_switch_def)
  have h2: "switch_report 1 ''agent-1'' example_switch ([], ledger_db)
      = (fst (switch_report 1 ''agent-1'' example_switch ([], ledger_db)),
         fst (snd (switch_report 1 ''agent-1'' example_switch ([], ledger_db))), reported_once)"
    by (simp add: reported_once_def)
  have h3: "switch_report 1 ''agent-1'' example_switch ([], reported_once)
      = (fst (switch_report 1 ''agent-1'' example_switch ([], reported_once)),
         fst (snd (switch_report 1 ''agent-1'' example_switch ([], reported_once))), reported_twice)"
    by (simp add: reported_twice_def)
  from replayed_report_converges_on_instances [OF h1 h2 h3] h1 show ?thesis
    by (simp add: savings_example)
qed

lemma failed_prefix:
  assumes "k < length (switch_statements client_id agent_id data)"
  shows "report_switch client_id agent_id data (replicate k False @ True # rest, d)
     = (Inl DatabaseError,
        log_system_event database_error_event
          (rest, fold (\<lambda>q. q) (take k (switch_statements client_id agent_id data)) d))"
proof -
  have "k = 0 \<or> k = 1 \<or> k = 2 \<or> (k = 3 \<and> savings_impact data > 0)"
    using assms by (auto simp: switch_statements_def split: if_splits)
  then show ?thesis
    by (auto simp: report_switch_def execute_query_def committing_def switch_statements_def
        Let_def numeral_2_eq_2 numeral_3_eq_3)
qed

lemma fold_keeps_system_events:
  assumes "\<And>q d. q \<in> set qs \<Longrightarrow> system_events (q d) = system_events d"
  shows "system_events (fold (\<lambda>q. q) qs d) = system_events d"
  using assms by (induction qs arbitrary: d) auto

lemma statement_keeps_system_events:
  assumes "q \<in> set (switch_statements client_id agent_id data)"
  shows "system_events (q d) = system_events d"
  using assms
  by (auto simp: switch_statements_def insert_switch_event_def deactivate_instance_def
      upsert_instance_def add_total_savings_def Let_def split: option.splits if_splits)

lemma prefix_keeps_system_events:
  "system_events (fold (\<lambda>q. q) (take k (switch_statements client_id agent_id data)) d)
     = system_events d"
  by (rule fold_keeps_system_events) (auto dest: in_set_takeD intro: statement_keeps_system_events)

text \<open>
  C5, as stated: when a persistence failure occurs during a switch report, the stored state
  after the failed request equals the state before it.  It does not: each statement is
  committed by its own \<open>execute_query\<close>, so when the second statement fails the ledger
  row of the first is already stored.
\<close>

theorem failed_report_keeps_prefix_counterexample:
  "fst (switch_report 1 ''agent-1'' example_switch ([False, True], ledger_db)) = Inl DatabaseError
   \<and> switch_events ledger_db = []
   \<and> switch_events (snd (snd (switch_report 1 ''agent-1'' example_switch ([False, True], ledger_db))))
       = [switch_event_row 1 ''agent-1'' example_switch]
   \<and> snd (snd (switch_report 1 ''agent-1'' example_switch ([False, True], ledger_db))) \<noteq> ledger_db"
proof -
  have r: "report_switch 1 ''agent-1'' example_switch ([False, True], ledger_db)
     = (Inl DatabaseError,
        log_system_event database_error_event
          ([], insert_switch_event (switch_event_row 1 ''agent-1'' example_switch) ledger_db))"
    by (simp add: report_switch_def execute_query_def committing_def)
  have e0: "switch_events ledger_db = []"
    by (simp add: ledger_db_def empty_db_def)
  have e1: "switch_events (snd (snd (switch_report 1 ''agent-1'' example_switch ([False, True], ledger_db))))
       = [switch_event_row 1 ''agent-1'' example_switch]"
    by (simp add: switch_report_def r insert_system_event_def insert_switch_event_def e0)
  have "fst (switch_report 1 ''agent-1'' example_switch ([False, True], ledger_db)) = Inl DatabaseError"
    by (simp add: switch_report_def r)
  moreover have "snd (snd (switch_report 1 ''agent-1'' example_switch ([False, True], ledger_db))) \<noteq> ledger_db"
    using e0 e1 by auto
  ultimately show ?thesis using e0 e1 by simp
qed

text \<open>
  C5, amended: when a persistence failure occurs at a statement of a switch report, the
  request fails and that statement is rolled back, but the statements that ran before it
  stay committed: apart from the events logged for the failure, the stored state is the
  state before the request with the first \<open>k\<close> statements applied, where the failure is
  at statement \<open>k + 1\<close>.  Only a failure of the first statement leaves the ledger, the
  Instance table and the client totals as they were.
\<close>

theorem failed_report_keeps_prefix:
  assumes "k < length (switch_statements client_id agent_id data)"
  shows "fst (switch_report client_id agent_id data (replicate k False @ True # rest, d))
           = Inl DatabaseError
         \<and> (snd (snd (switch_report client_id agent_id data (replicate k False @ True # rest, d))))
             \<lparr>system_events := system_events d\<rparr>
           = fold (\<lambda>q. q) (take k (switch_statements client_id agent_id data)) d"
proof -
  let ?D = "fold (\<lambda>q. q) (take k (switch_statements client_id agent_id data)) d"
  have "?D\<lparr>system_events := system_events d\<rparr> = ?D\<lparr>system_events := system_events ?D\<rparr>"
    by (simp only: prefix_keeps_system_events)
  then have "?D\<lparr>system_events := system_events d\<rparr> = ?D"
    by simp
  then show ?thesis
    by (simp add: switch_report_def failed_prefix [OF assms] log_system_event_frame2)
qed

theorem failed_report_keeps_prefix_witness:
  "(1::nat) < length (switch_statements 1 ''agent-1'' example_switch)
   \<and> fst (switch_report 1 ''agent-1'' example_switch ([False, True], ledger_db)) = Inl DatabaseError
   \<and> (snd (snd (switch_report 1 ''agent-1'' example_switch ([False, True], ledger_db))))
        \<lparr>system_events := system_events ledger_db\<rparr>
       = insert_switch_event (switch_event_row 1 ''agent-1'' example_switch) ledger_db"
proof -
  have h: "(1::nat) < length (switch_statements 1 ''agent-1'' example_switch)"
    by (simp add: switch_statements_def)
  from failed_report_keeps_prefix [OF h, of "[]" ledger_db] h show ?thesis
    by (simp add: switch_statements_def)
qed

section \<open>Decision engine: the guards\<close>

lemma risk_reason:
  "get_risk_score mm pid p cd od = Inr (score, st, why) \<Longrightarrow> \<not> gate_reason why"
  by (auto simp: get_risk_score_def gate_reason_def Let_def split: if_splits option.splits sum.splits)

lemma choose_reason:
  "choose_action cfg pricing mode pool p score st why = Inr (action, m, rp, es, why') \<Longrightarrow>
   \<not> gate_reason why \<Longrightarrow> \<not> gate_reason why'"
  by (auto simp: choose_action_def gate_reason_def Let_def split: if_splits option.splits sum.splits)

lemma evaluate_not_gate:
  assumes "evaluate mm client_id agent_id cfg data s = (Inr a, s')"
  shows "\<not> gate_reason (d_reason a)"
  using assms
  by (auto simp: evaluate_def Let_def
      split: prod.splits sum.splits dest!: risk_reason dest: choose_reason)

lemma evaluate_not_rejected:
  "\<not> rate_rejected (fst (evaluate mm client_id agent_id cfg data s))
   \<and> \<not> dwell_rejected (fst (evaluate mm client_id agent_id cfg data s))"
proof -
  obtain res s' where Pair: "evaluate mm client_id agent_id cfg data s = (res, s')"
    by (cases "evaluate mm client_id agent_id cfg data s")
  show ?thesis
  proof (cases res)
    case (Inl e)
    then show ?thesis using Pair by (simp add: rate_rejected_def dwell_rejected_def)
  next
    case (Inr a)
    then have "\<not> gate_reason (d_reason a)"
      using Pair evaluate_not_gate by blast
    then show ?thesis
      using Pair Inr
      by (auto simp: rate_rejected_def dwell_rejected_def gate_reason_def split: reason.splits)
  qed
qed

lemma get_decision_rejected:
  "rate_rejected (fst (get_decision mm client_id now utcnow agent_id data s))
     = rate_rejected (fst (decide mm client_id now utcnow agent_id data s))"
  "dwell_rejected (fst (get_decision mm client_id now utcnow agent_id data s))
     = dwell_rejected (fst (decide mm client_id now utcnow agent_id data s))"
  by (auto simp: get_decision_def rate_rejected_def dwell_rejected_def split: prod.splits sum.splits)

lemma get_decision_answer:
  "decide mm client_id now utcnow agent_id data s = (Inr a, s') \<Longrightarrow>
   get_decision mm client_id now utcnow agent_id data s = (Inr a, s')"
  by (simp add: get_decision_def)

lemma blocked_answer:
  "current_mode inst = Some mode \<Longrightarrow> \<exists>a. blocked inst why = Inr a \<and> d_reason a = why"
  by (simp add: blocked_def)

lemma blocked_rejected:
  "current_mode inst = Some mode \<Longrightarrow> rate_rejected (blocked inst (Switch_limit_reached n l))"
  "current_mode inst = Some mode \<Longrightarrow> dwell_rejected (blocked inst (Too_soon_to_switch h m))"
  "\<not> rate_rejected (blocked inst (Too_soon_to_switch h m))"
  by (auto simp: rate_rejected_def dwell_rejected_def blocked_def split: option.splits)

lemma decide_configured:
  assumes "select_config agent_id client_id d = Some cfg" and "enabled cfg"
  shows "decide mm client_id now utcnow agent_id data ([], d) =
     (if max_switches_per_week cfg \<le> select_recent_switches agent_id now d
      then (blocked (req_instance data)
              (Switch_limit_reached (select_recent_switches agent_id now d)
                 (max_switches_per_week cfg)), [], d)
      else case select_last_switch (instance_id (req_instance data)) d of
             None \<Rightarrow> evaluate mm client_id agent_id cfg data ([], d)
           | Some ts \<Rightarrow>
               if hours_since utcnow ts < of_int (min_pool_duration_hours cfg)
               then (blocked (req_instance data)
                       (Too_soon_to_switch (hours_since utcnow ts)
                          (of_int (min_pool_duration_hours cfg))), [], d)
               else evaluate mm client_id agent_id cfg data ([], d))"
  using assms by (simp add: decide_def Let_def)

lemma latest_None_iff: "latest ts = None \<longleftrightarrow> ts = []"
  by (induction ts) (auto split: option.splits)

lemma latest_Some_iff: "latest ts = Some t \<longleftrightarrow> t \<in> set ts \<and> (\<forall>u\<in>set ts. u \<le> t)"
proof (induction ts arbitrary: t)
  case Nil
  show ?case by simp
next
  case (Cons x xs)
  show ?case
  proof (cases "latest xs")
    case None
    then have "xs = []" by (simp add: latest_None_iff)
    then show ?thesis by auto
  next
    case (Some u)
    then have u: "u \<in> set xs" "\<forall>v\<in>set xs. v \<le> u"
      using Cons.IH [of u] by auto
    have l: "latest (x # xs) = Some (max x u)"
      using Some by simp
    show ?thesis
    proof
      assume "latest (x # xs) = Some t"
      then have "t = max x u" using l by simp
      then show "t \<in> set (x # xs) \<and> (\<forall>v\<in>set (x # xs). v \<le> t)"
        using u by (auto simp: max_def)
    next
      assume r: "t \<in> set (x # xs) \<and> (\<forall>v\<in>set (x # xs). v \<le> t)"
      then have "x \<le> t" and "u \<le> t" using u(1) by auto
      moreover have "t \<le> max x u" using r u(2) by (auto simp: max_def)
      ultimately have "t = max x u" by (simp add: max_def split: if_splits)
      then show "latest (x # xs) = Some t" using l by simp
    qed
  qed
qed

lemma dwell_rejected_iff:
  assumes "select_config agent_id client_id d = Some cfg" and "enabled cfg"
    and "current_mode (req_instance data) = Some mode"
    and "select_recent_switches agent_id now d < max_switches_per_week cfg"
  shows "dwell_rejected (fst (get_decision mm client_id now utcnow agent_id data ([], d)))
         \<longleftrightarrow> (\<exists>t. select_last_switch (instance_id (req_instance data)) d = Some t
                \<and> hours_since utcnow t < of_int (min_pool_duration_hours cfg))"
proof -
  note dec = decide_configured [OF assms(1,2), of mm now utcnow data]
  have "dwell_rejected (fst (decide mm client_id now utcnow agent_id data ([], d)))
         \<longleftrightarrow> (\<exists>t. select_last_switch (instance_id (req_instance data)) d = Some t
                \<and> hours_since utcnow t < of_int (min_pool_duration_hours cfg))"
  proof (cases "select_last_switch (instance_id (req_instance data)) d")
    case None
    then show ?thesis
      using assms(4) evaluate_not_rejected by (simp add: dec)
  next
    case (Some t)
    then show ?thesis
      using assms(4) evaluate_not_rejected blocked_rejected(2) [OF assms(3)]
      by (simp add: dec)
  qed
  then show ?thesis
    by (simp add: get_decision_rejected)
qed

lemma select_config_cong:
  "agents d' = agents d \<Longrightarrow> agent_configs d' = agent_configs d \<Longrightarrow>
   select_config agent_id client_id d' = select_config agent_id client_id d"
  by (auto simp: select_config_def split: option.splits)

lemma ledger_config: "select_config ''agent-1'' 1 ledger_db = Some example_config"
  by (simp add: select_config_def ledger_db_def empty_db_def example_config_def)

lemma reported_once_config: "select_config ''agent-1'' 1 reported_once = Some example_config"
proof -
  have "agents reported_once = agents ledger_db"
    and "agent_configs reported_once = agent_configs ledger_db"
    by (simp_all add: reported_once_eq insert_system_event_def statements_agents)
  then show ?thesis
    using ledger_config select_config_cong by metis
qed

lemma reported_twice_config: "select_config ''agent-1'' 1 reported_twice = Some example_config"
proof -
  have "agents reported_twice = agents reported_once"
    and "agent_configs reported_twice = agent_configs reported_once"
    by (simp_all add: reported_twice_eq insert_system_event_def statements_agents)
  then show ?thesis
    using reported_once_config select_config_cong by metis
qed

lemma example_row:
  "se_instance_id (switch_event_row 1 ''agent-1'' example_switch) = ''i-new''"
  "se_new_instance_id (switch_event_row 1 ''agent-1'' example_switch) = ''i-new''"
  "se_old_instance_id (switch_event_row 1 ''agent-1'' example_switch) = ''i-old''"
  "se_agent_id (switch_event_row 1 ''agent-1'' example_switch) = ''agent-1''"
  "se_timestamp (switch_event_row 1 ''agent-1'' example_switch) = 1000"
  by (simp_all add: switch_event_row_def example_switch_def)

text \<open>
  C8: when the store answers, for an enabled agent and a request that carries its
  \<open>current_mode\<close>, the rate gate blocks the decision exactly when the number \<open>n\<close> of the
  agent's switch events with a timestamp in the trailing 7 days (not older than
  \<open>NOW() - 7 days\<close>) is at least \<open>max_switches_per_week\<close>; the answer is then the stay
  answer citing \<open>n\<close> and the limit, and the store is untouched.  So \<open>N\<close> events with limit
  \<open>N\<close> block, and \<open>N - 1\<close> events do not.
\<close>

theorem rate_gate_boundary:
  assumes "select_config agent_id client_id d = Some cfg" and "enabled cfg"
    and "current_mode (req_instance data) = Some mode"
    and "n = int (length (filter (\<lambda>e. se_agent_id e = agent_id \<and> now - seven_days \<le> se_timestamp e)
                           (switch_events d)))"
  shows "(rate_rejected (fst (get_decision mm client_id now utcnow agent_id data ([], d)))
            \<longleftrightarrow> max_switches_per_week cfg \<le> n)
         \<and> (max_switches_per_week cfg \<le> n \<longrightarrow>
              get_decision mm client_id now utcnow agent_id data ([], d)
                = (blocked (req_instance data)
                     (Switch_limit_reached n (max_switches_per_week cfg)), [], d))"
proof -
  have n: "select_recent_switches agent_id now d = n"
    using assms(4) by (simp add: select_recent_switches_def)
  note dec = decide_configured [OF assms(1,2), of mm now utcnow data, unfolded n]
  show ?thesis
  proof (cases "max_switches_per_week cfg \<le> n")
    case True
    obtain a where a: "blocked (req_instance data)
        (Switch_limit_reached n (max_switches_per_week cfg)) = Inr a"
      using blocked_answer [OF assms(3)] by blast
    have "decide mm client_id now utcnow agent_id data ([], d) = (Inr a, [], d)"
      using dec True a by simp
    then have "get_decision mm client_id now utcnow agent_id data ([], d) = (Inr a, [], d)"
      by (rule get_decision_answer)
    then show ?thesis
      using True a blocked_rejected(1) [OF assms(3), of n "max_switches_per_week cfg"] by simp
  next
    case False
    have "\<not> rate_rejected (fst (decide mm client_id now utcnow agent_id data ([], d)))"
      using False evaluate_not_rejected blocked_rejected(3)
      by (simp add: dec split: option.splits)
    then show ?thesis
      using False by (simp add: get_decision_rejected)
  qed
qed

theorem rate_gate_boundary_witness:
  "select_config ''agent-1'' 1 reported_twice = Some example_config
   \<and> enabled example_config
   \<and> max_switches_per_week example_config = 2
   \<and> current_mode (req_instance new_request) = Some ''spot''
   \<and> (2::int) = int (length (filter (\<lambda>e. se_agent_id e = ''agent-1'' \<and> 1060 - seven_days \<le> se_timestamp e)
                              (switch_events reported_twice)))
   \<and> rate_rejected (fst (get_decision scenario_manager 1 1060 1060 ''agent-1'' new_request
                            ([], reported_twice)))
   \<and> select_config ''agent-1'' 1 reported_once = Some example_config
   \<and> (1::int) = int (length (filter (\<lambda>e. se_agent_id e = ''agent-1'' \<and> 1060 - seven_days \<le> se_timestamp e)
                              (switch_events reported_once)))
   \<and> \<not> rate_rejected (fst (get_decision scenario_manager 1 1060 1060 ''agent-1'' new_request
                            ([], reported_once)))"
proof -
  have h2: "enabled example_config" and m: "max_switches_per_week example_config = 2"
    by (simp_all add: example_config_def)
  have h3: "current_mode (req_instance new_request) = Some ''spot''"
    by (simp add: new_request_def)
  have n2: "(2::int) = int (length (filter (\<lambda>e. se_agent_id e = ''agent-1'' \<and> 1060 - seven_days \<le> se_timestamp e)
                              (switch_events reported_twice)))"
    by (simp add: reported_twice_events example_row seven_days_def)
  have n1: "(1::int) = int (length (filter (\<lambda>e. se_agent_id e = ''agent-1'' \<and> 1060 - seven_days \<le> se_timestamp e)
                              (switch_events reported_once)))"
    by (simp add: reported_once_events example_row seven_days_def)
  from rate_gate_boundary [OF reported_twice_config h2 h3 n2, of scenario_manager 1060, THEN conjunct1]
       rate_gate_boundary [OF reported_once_config h2 h3 n1, of scenario_manager 1060, THEN conjunct1]
  have "rate_rejected (fst (get_decision scenario_manager 1 1060 1060 ''agent-1'' new_request
                            ([], reported_twice)))"
    and "\<not> rate_rejected (fst (get_decision scenario_manager 1 1060 1060 ''agent-1'' new_request
                            ([], reported_once)))"
    by (simp_all add: m)
  then show ?thesis
    using reported_twice_config reported_once_config h2 h3 m n1 n2 by simp
qed

text \<open>
  C7, as stated: the gate looks at the most recent switch event touching the instance as
  source or destination.  It does not look at the source: after the reported switch from
  \<open>i-old\<close> to \<open>i-new\<close> at time 1000, the only event has \<open>i-old\<close> as its source, 60 seconds
  later less than the minimum of one hour has elapsed, and a decide call for \<open>i-old\<close> is
  not blocked by the dwell gate.
\<close>

theorem dwell_gate_boundary_counterexample:
  "select_config ''agent-1'' 1 reported_once = Some example_config
   \<and> enabled example_config
   \<and> min_pool_duration_hours example_config = 1
   \<and> select_recent_switches ''agent-1'' 1060 reported_once < max_switches_per_week example_config
   \<and> instance_id (req_instance old_request) = ''i-old''
   \<and> switch_events reported_once = [switch_event_row 1 ''agent-1'' example_switch]
   \<and> se_old_instance_id (switch_event_row 1 ''agent-1'' example_switch) = ''i-old''
   \<and> hours_since 1060 (se_timestamp (switch_event_row 1 ''agent-1'' example_switch)) < 1
   \<and> \<not> dwell_rejected (fst (get_decision scenario_manager 1 1060 1060 ''agent-1'' old_request
                             ([], reported_once)))"
proof -
  have h2: "enabled example_config" and m: "min_pool_duration_hours example_config = 1"
    by (simp_all add: example_config_def)
  have h3: "current_mode (req_instance old_request) = Some ''spot''"
    and i: "instance_id (req_instance old_request) = ''i-old''"
    by (simp_all add: old_request_def)
  have h4: "select_recent_switches ''agent-1'' 1060 reported_once < max_switches_per_week example_config"
    by (simp add: select_recent_switches_def reported_once_events example_row seven_days_def
        example_config_def)
  have none: "select_last_switch ''i-old'' reported_once = None"
    by (simp add: select_last_switch_def reported_once_events example_row)
  have "\<not> dwell_rejected (fst (get_decision scenario_manager 1 1060 1060 ''agent-1'' old_request
                             ([], reported_once)))"
    using dwell_rejected_iff [OF reported_once_config h2 h3 h4, of scenario_manager 1060]
    by (simp add: i none)
  moreover have "hours_since 1060 (se_timestamp (switch_event_row 1 ''agent-1'' example_switch)) < 1"
    by (simp add: example_row hours_since_def)
  ultimately show ?thesis
    using reported_once_config h2 m h4 i reported_once_events example_row(3) by simp
qed

text \<open>
  C7, amended: when the store answers, for an enabled agent below its weekly limit and a
  request that carries its \<open>current_mode\<close>, the dwell gate blocks the decision exactly when
  there is a most recent switch event recorded for the instance (its \<open>instance_id\<close> or
  \<open>new_instance_id\<close> column is the instance's id; both hold the destination of a reported
  switch) and the hours elapsed since it are strictly less than
  \<open>min_pool_duration_hours\<close>.  Elapsed time equal to the minimum is not blocked.
\<close>

theorem dwell_gate_boundary:
  assumes "select_config agent_id client_id d = Some cfg" and "enabled cfg"
    and "current_mode (req_instance data) = Some mode"
    and "select_recent_switches agent_id now d < max_switches_per_week cfg"
    and "iid = instance_id (req_instance data)"
  shows "dwell_rejected (fst (get_decision mm client_id now utcnow agent_id data ([], d)))
         \<longleftrightarrow> (\<exists>e\<in>set (switch_events d).
                (se_instance_id e = iid \<or> se_new_instance_id e = iid)
                \<and> (\<forall>e'\<in>set (switch_events d).
                      se_instance_id e' = iid \<or> se_new_instance_id e' = iid
                      \<longrightarrow> se_timestamp e' \<le> se_timestamp e)
                \<and> hours_since utcnow (se_timestamp e) < of_int (min_pool_duration_hours cfg))"
    (is "?L \<longleftrightarrow> ?R")
proof -
  let ?ts = "map se_timestamp
       (filter (\<lambda>e. se_instance_id e = iid \<or> se_new_instance_id e = iid) (switch_events d))"
  have R: "?R \<longleftrightarrow> (\<exists>t. latest ?ts = Some t
                  \<and> hours_since utcnow t < of_int (min_pool_duration_hours cfg))"
    by (auto simp: latest_Some_iff)
  have sel: "select_last_switch (instance_id (req_instance data)) d = latest ?ts"
    by (simp add: select_last_switch_def assms(5))
  show ?thesis
    using dwell_rejected_iff [OF assms(1-4), of mm utcnow] R by (simp add: sel)
qed

theorem dwell_gate_boundary_witness:
  "select_config ''agent-1'' 1 reported_once = Some example_config
   \<and> enabled example_config
   \<and> min_pool_duration_hours example_config = 1
   \<and> current_mode (req_instance new_request) = Some ''spot''
   \<and> select_recent_switches ''agent-1'' 1060 reported_once < max_switches_per_week example_config
   \<and> ''i-new'' = instance_id (req_instance new_request)
   \<and> hours_since 1060 1000 < 1
   \<and> dwell_rejected (fst (get_decision scenario_manager 1 1060 1060 ''agent-1'' new_request
                            ([], reported_once)))
   \<and> hours_since 4600 1000 = 1
   \<and> \<not> dwell_rejected (fst (get_decision scenario_manager 1 1060 4600 ''agent-1'' new_request
                            ([], reported_once)))"
proof -
  have h2: "enabled example_config" and m: "min_pool_duration_hours example_config = 1"
    by (simp_all add: example_config_def)
  have h3: "current_mode (req_instance new_request) = Some ''spot''"
    and i: "''i-new'' = instance_id (req_instance new_request)"
    by (simp_all add: new_request_def)
  have h4: "select_recent_switches ''agent-1'' 1060 reported_once < max_switches_per_week example_config"
    by (simp add: select_recent_switches_def reported_once_events example_row seven_days_def
        example_config_def)
  have t1: "hours_since 1060 1000 < 1" and t2: "hours_since 4600 1000 = 1"
    by (simp_all add: hours_since_def)
  from dwell_gate_boundary [OF reported_once_config h2 h3 h4 i, of scenario_manager 1060]
       dwell_gate_boundary [OF reported_once_config h2 h3 h4 i, of scenario_manager 4600]
  have "dwell_rejected (fst (get_decision scenario_manager 1 1060 1060 ''agent-1'' new_request
                            ([], reported_once)))"
    and "\<not> dwell_rejected (fst (get_decision scenario_manager 1 1060 4600 ''agent-1'' new_request
                            ([], reported_once)))"
    by (simp_all add: reported_once_events example_row m t1 t2)
  then show ?thesis
    using reported_once_config h2 h3 m h4 i t1 t2 by simp
qed

section \<open>Decision engine: the audit row\<close>

lemma blocked_audited:
  "gate_reason why \<Longrightarrow> risk_scores d' = risk_scores d \<Longrightarrow> audited d (blocked inst why) d'"
  by (auto simp: audited_def blocked_def split: option.splits)

lemma evaluate_audited:
  assumes "evaluate mm client_id agent_id cfg data (fs, d) = (res, fs', d')"
  shows "audited d res d'"
proof (cases res)
  case (Inl e)
  then show ?thesis
    using assms
    by (auto simp: audited_def evaluate_def Let_def
        split: prod.splits sum.splits dest: commit_failed_risk_scores)
next
  case (Inr a)
  then show ?thesis
    using assms
    by (auto simp: audited_def evaluate_def Let_def insert_risk_score_def
        split: prod.splits sum.splits dest!: commit_done risk_reason dest: choose_reason)
qed

lemma audited_frame:
  "audited d1 res d' \<Longrightarrow> risk_scores d1 = risk_scores d \<Longrightarrow> audited d res d'"
  by (auto simp: audited_def split: sum.splits)

lemma failed_audited: "risk_scores d' = risk_scores d \<Longrightarrow> audited d (Inl e) d'"
  by (simp add: audited_def)

lemma decide_audited:
  assumes "decide mm client_id now utcnow agent_id data (fs, d) = (res, fs', d')"
  shows "audited d res d'"
proof -
  obtain r1 f1 d1 where q1:
    "execute_query (fetching (select_config agent_id client_id)) (fs, d) = (r1, f1, d1)"
    by (metis prod_cases3)
  have k1: "risk_scores d1 = risk_scores d"
    using q1 by (rule fetch_risk_scores)
  obtain r2 f2 d2 where q2:
    "execute_query (fetching (select_recent_switches agent_id now)) (f1, d1) = (r2, f2, d2)"
    by (metis prod_cases3)
  have k2: "risk_scores d2 = risk_scores d"
    using fetch_risk_scores [OF q2] k1 by simp
  obtain r3 f3 d3 where q3:
    "execute_query (fetching (select_last_switch (instance_id (req_instance data)))) (f2, d2)
       = (r3, f3, d3)"
    by (metis prod_cases3)
  have k3: "risk_scores d3 = risk_scores d"
    using fetch_risk_scores [OF q3] k2 by simp
  have ev: "\<And>cfg. evaluate mm client_id agent_id cfg data (f3, d3) = (res, fs', d')
      \<Longrightarrow> audited d res d'"
    using evaluate_audited audited_frame k3 by blast
  have g: "\<And>why dx. gate_reason why \<Longrightarrow> risk_scores dx = risk_scores d
      \<Longrightarrow> audited d (blocked (req_instance data) why) dx"
    by (rule blocked_audited)
  show ?thesis
    using assms q1 q2 q3 k1 k2 k3
    by (auto simp: decide_def Let_def gate_reason_def
        split: sum.splits option.splits if_splits
        intro: ev failed_audited g [unfolded gate_reason_def])
qed

lemma ledger_quiet:
  "select_recent_switches ''agent-1'' 2000 ledger_db = 0"
  "select_last_switch ''i-old'' ledger_db = None"
  "risk_scores ledger_db = []"
  by (simp_all add: select_recent_switches_def select_last_switch_def ledger_db_def empty_db_def)

lemma ledger_decide:
  "decide scenario_manager 1 2000 2000 ''agent-1'' data ([], ledger_db)
     = (if instance_id (req_instance data) = ''i-old''
        then evaluate scenario_manager 1 ''agent-1'' example_config data ([], ledger_db)
        else decide scenario_manager 1 2000 2000 ''agent-1'' data ([], ledger_db))"
proof -
  have e: "enabled example_config" and m: "max_switches_per_week example_config = 2"
    by (simp_all add: example_config_def)
  show ?thesis
    using decide_configured [OF ledger_config e, of scenario_manager 2000 2000 data]
    by (simp add: ledger_quiet m)
qed

lemma old_request_decision:
  "get_decision scenario_manager 1 2000 2000 ''agent-1'' old_request ([], ledger_db)
     = (Inr \<lparr>d_instance_id = ''i-old'', d_risk_score = 3 / 10,
             d_recommended_action = ''switch_pool'', d_recommended_mode = ''spot'',
             d_recommended_pool_id = Some ''pool-b'', d_expected_savings_per_hour = 2 / 10,
             d_allowed = True, d_reason = Better_pool_available ''pool-b'' 20\<rparr>,
        [],
        insert_risk_score
          \<lparr>rs_client_id = 1, rs_instance_id = ''i-old'', rs_agent_id = ''agent-1'',
           rs_risk_score = 3 / 10, rs_recommended_action = ''switch_pool'',
           rs_recommended_pool_id = ''pool-b'', rs_recommended_mode = ''spot'',
           rs_expected_savings_per_hour = 2 / 10, rs_allowed = True,
           rs_reason = Better_pool_available ''pool-b'' 20\<rparr> ledger_db)"
proof -
  have i: "instance_id (req_instance old_request) = ''i-old''"
    by (simp add: old_request_def)
  have r: "resolve_current stale_pools ''pool-a'' = (Some (1 / 2), ''pool-a'')"
    by (simp add: resolve_current_def stale_pools_def truthy_def)
  have s: "get_risk_score scenario_manager ''pool-a'' (Some (1 / 2)) (1 / 2) 1
      = Inr (3 / 10, ''normal'', Normal_conditions (1 / 2))"
    by (simp add: get_risk_score_def scenario_manager_def price_ratio_def)
  have m: "min_by_price stale_pools = Inr \<lparr>pool_id = ''pool-b'', price = Some (3 / 10)\<rparr>"
    by (simp add: min_by_price_def stale_pools_def)
  have c: "choose_action example_config \<lparr>spot_pools = stale_pools, on_demand_price = 1\<rparr>
      ''spot'' ''pool-a'' (Some (1 / 2)) (3 / 10) ''normal'' (Normal_conditions (1 / 2))
      = Inr (''switch_pool'', ''spot'', ''pool-b'', 1 / 5, Better_pool_available ''pool-b'' 20)"
    by (simp add: choose_action_def m example_config_def)
  have p: "py_round (3 / 10) 4 = 3 / 10" "py_round (1 / 5) 6 = 1 / 5"
    by (simp_all add: py_round_def round_half_even_def)
  have a: "auto_switch_enabled example_config"
    by (simp add: example_config_def)
  have ev: "evaluate scenario_manager 1 ''agent-1'' example_config old_request ([], ledger_db)
     = (Inr \<lparr>d_instance_id = ''i-old'', d_risk_score = 3 / 10,
             d_recommended_action = ''switch_pool'', d_recommended_mode = ''spot'',
             d_recommended_pool_id = Some ''pool-b'', d_expected_savings_per_hour = 2 / 10,
             d_allowed = True, d_reason = Better_pool_available ''pool-b'' 20\<rparr>,
        [],
        insert_risk_score
          \<lparr>rs_client_id = 1, rs_instance_id = ''i-old'', rs_agent_id = ''agent-1'',
           rs_risk_score = 3 / 10, rs_recommended_action = ''switch_pool'',
           rs_recommended_pool_id = ''pool-b'', rs_recommended_mode = ''spot'',
           rs_expected_savings_per_hour = 2 / 10, rs_allowed = True,
           rs_reason = Better_pool_available ''pool-b'' 20\<rparr> ledger_db)"
    by (simp add: evaluate_def old_request_def r discount_def s c p a Let_def)
  show ?thesis
    using ledger_decide [of old_request] by (simp add: get_decision_def i ev)
qed

text \<open>
  C9, as stated: every decide call that reaches the evaluating state persists exactly one
  audit row.  It does not when the evaluation raises: with the agent enabled, no recent
  switch and an empty snapshot, no guard fires, the resolved price stays \<open>None\<close>, the
  discount raises \<open>TypeError\<close>, and the call is answered with 500 before the \<open>INSERT\<close>.
\<close>

theorem decision_audit_counterexample:
  "select_config ''agent-1'' 1 ledger_db = Some example_config
   \<and> enabled example_config
   \<and> select_recent_switches ''agent-1'' 2000 ledger_db < max_switches_per_week example_config
   \<and> select_last_switch (instance_id (req_instance empty_request)) ledger_db = None
   \<and> fst (get_decision scenario_manager 1 2000 2000 ''agent-1'' empty_request ([], ledger_db))
       = Inl TypeError
   \<and> risk_scores (snd (snd (get_decision scenario_manager 1 2000 2000 ''agent-1'' empty_request
                               ([], ledger_db))))
       = risk_scores ledger_db"
proof -
  have e: "enabled example_config" and m: "max_switches_per_week example_config = 2"
    by (simp_all add: example_config_def)
  have i: "instance_id (req_instance empty_request) = ''i-old''"
    by (simp add: empty_request_def)
  have ev: "evaluate scenario_manager 1 ''agent-1'' example_config empty_request ([], ledger_db)
      = (Inl TypeError, [], ledger_db)"
    by (simp add: evaluate_def empty_request_def resolve_current_def truthy_def discount_def)
  have d: "decide scenario_manager 1 2000 2000 ''agent-1'' empty_request ([], ledger_db)
      = (Inl TypeError, [], ledger_db)"
    using ledger_decide [of empty_request] by (simp add: i ev)
  have "fst (get_decision scenario_manager 1 2000 2000 ''agent-1'' empty_request ([], ledger_db))
       = Inl TypeError"
    by (simp add: get_decision_def d)
  moreover have "risk_scores (snd (snd (get_decision scenario_manager 1 2000 2000 ''agent-1''
      empty_request ([], ledger_db)))) = risk_scores ledger_db"
    by (simp add: get_decision_def d insert_system_event_def)
  ultimately show ?thesis
    using ledger_config e m i by (simp add: ledger_quiet)
qed

text \<open>
  C9, amended: a decide call that answers with the reason of the disabled, rate or dwell
  gate writes no audit row and returns action \<open>stay\<close>, risk score 0 and \<open>allowed = false\<close>;
  a decide call that reaches the evaluation and returns a decision persists exactly one
  audit row, with the action it computed, whatever that action is; a decide call that
  ends in an error persists none.  This holds under any persistence faults.
\<close>

theorem decision_audit:
  assumes "get_decision mm client_id now utcnow agent_id data (faults, d) = (res, faults', d')"
  shows "case res of
           Inl e \<Rightarrow> risk_scores d' = risk_scores d
         | Inr a \<Rightarrow>
             if gate_reason (d_reason a)
             then risk_scores d' = risk_scores d \<and> d_recommended_action a = ''stay''
                  \<and> d_risk_score a = 0 \<and> \<not> d_allowed a
             else (\<exists>row. risk_scores d' = risk_scores d @ [row]
                     \<and> rs_instance_id row = d_instance_id a
                     \<and> rs_recommended_action row = d_recommended_action a)"
proof -
  obtain r0 f0 d0 where dec: "decide mm client_id now utcnow agent_id data (faults, d) = (r0, f0, d0)"
    by (metis prod_cases3)
  have a0: "audited d r0 d0"
    using dec by (rule decide_audited)
  show ?thesis
  proof (cases r0)
    case (Inl e)
    then have "res = Inl e" and "risk_scores d' = risk_scores d0"
      using assms dec by (auto simp: get_decision_def dest: log_risk_scoresD)
    then show ?thesis
      using a0 Inl by (simp add: audited_def)
  next
    case (Inr a)
    then have "res = Inr a" and "d' = d0"
      using assms dec by (auto simp: get_decision_def)
    then show ?thesis
      using a0 Inr by (simp add: audited_def)
  qed
qed

theorem decision_audit_witness:
  "fst (get_decision scenario_manager 1 2000 2000 ''agent-1'' old_request ([], ledger_db))
     = Inr \<lparr>d_instance_id = ''i-old'', d_risk_score = 3 / 10,
            d_recommended_action = ''switch_pool'', d_recommended_mode = ''spot'',
            d_recommended_pool_id = Some ''pool-b'', d_expected_savings_per_hour = 2 / 10,
            d_allowed = True, d_reason = Better_pool_available ''pool-b'' 20\<rparr>
   \<and> \<not> gate_reason (Better_pool_available ''pool-b'' 20)
   \<and> (\<exists>row. risk_scores (snd (snd (get_decision scenario_manager 1 2000 2000 ''agent-1''
                                       old_request ([], ledger_db))))
               = risk_scores ledger_db @ [row]
             \<and> rs_instance_id row = ''i-old''
             \<and> rs_recommended_action row = ''switch_pool'')"
proof -
  have g: "\<not> gate_reason (Better_pool_available ''pool-b'' 20)"
    by (simp add: gate_reason_def)
  from decision_audit [OF old_request_decision] g show ?thesis
    by (simp add: old_request_decision)
qed

section \<open>Decision engine: the current pool\<close>

lemma lookup_price_absent: "cur \<notin> pool_id ` set pools \<Longrightarrow> lookup_price pools cur = None"
  by (induction pools) auto

lemma lookup_price_first:
  "cur \<notin> pool_id ` set before \<Longrightarrow> pool_id p = cur \<Longrightarrow>
   lookup_price (before @ p # after) cur = price p"
  by (induction before) auto

lemma resolve_falsy:
  assumes "\<not> truthy (lookup_price (first # rest) cur)"
  shows "resolve_current (first # rest) cur = (price first, pool_id first)"
  using assms by (simp add: resolve_current_def)

lemma resolve_first:
  "resolve_current (first # rest) (pool_id first) = (price first, pool_id first)"
  by (simp add: resolve_current_def Let_def)

lemma evaluate_rebinds:
  assumes "spot_pools (req_pricing data) = first # rest"
    and "\<not> truthy (lookup_price (first # rest) (recorded_pool data))"
  shows "evaluate mm client_id agent_id cfg data s
           = evaluate mm client_id agent_id cfg (as_current (pool_id first) data) s"
proof -
  have a: "resolve_current (first # rest)
             (case current_pool_id (req_instance data) of None \<Rightarrow> ''unknown'' | Some p \<Rightarrow> p)
             = (price first, pool_id first)"
    using assms(2) by (simp add: resolve_falsy recorded_pool_def)
  show ?thesis
    by (simp add: evaluate_def Let_def as_current_def assms(1) resolve_first a
        cong: sum.case_cong prod.case_cong)
qed

lemma blocked_as_current:
  "blocked (req_instance (as_current pool data)) why = Inl e
     \<longleftrightarrow> blocked (req_instance data) why = Inl e"
  by (auto simp: blocked_def as_current_def split: option.splits)

lemma blocked_gate:
  "blocked inst why = Inr a \<Longrightarrow> d_reason a = why"
  by (auto simp: blocked_def split: option.splits)

lemma decide_rebinds:
  assumes "spot_pools (req_pricing data) = first # rest"
    and "\<not> truthy (lookup_price (first # rest) (recorded_pool data))"
    and "\<And>a. fst (decide mm client_id now utcnow agent_id data s) = Inr a
            \<Longrightarrow> \<not> gate_reason (d_reason a)"
  shows "decide mm client_id now utcnow agent_id data s
           = decide mm client_id now utcnow agent_id (as_current (pool_id first) data) s"
proof -
  let ?data' = "as_current (pool_id first) data"
  have i: "instance_id (req_instance ?data') = instance_id (req_instance data)"
    by (simp add: as_current_def)
  have ev: "\<And>cfg t. evaluate mm client_id agent_id cfg data t
      = evaluate mm client_id agent_id cfg ?data' t"
    using assms(1,2) by (rule evaluate_rebinds)
  have bl: "\<And>why t. gate_reason why \<Longrightarrow>
      decide mm client_id now utcnow agent_id data s = (blocked (req_instance data) why, t)
      \<Longrightarrow> blocked (req_instance ?data') why = blocked (req_instance data) why"
  proof -
    fix why t
    assume g: "gate_reason why"
      and d: "decide mm client_id now utcnow agent_id data s = (blocked (req_instance data) why, t)"
    show "blocked (req_instance ?data') why = blocked (req_instance data) why"
    proof (cases "blocked (req_instance data) why")
      case (Inl e)
      then show ?thesis using blocked_as_current [of "pool_id first" data why e] by simp
    next
      case (Inr a)
      then have "d_reason a = why" by (rule blocked_gate)
      moreover have "fst (decide mm client_id now utcnow agent_id data s) = Inr a"
        using d Inr by simp
      ultimately show ?thesis using assms(3) g by blast
    qed
  qed
  obtain r1 s1 where q1:
    "execute_query (fetching (select_config agent_id client_id)) s = (r1, s1)"
    by (cases "execute_query (fetching (select_config agent_id client_id)) s")
  obtain r2 s2 where q2:
    "execute_query (fetching (select_recent_switches agent_id now)) s1 = (r2, s2)"
    by (cases "execute_query (fetching (select_recent_switches agent_id now)) s1")
  obtain r3 s3 where q3:
    "execute_query (fetching (select_last_switch (instance_id (req_instance data)))) s2 = (r3, s3)"
    by (cases "execute_query (fetching (select_last_switch (instance_id (req_instance data)))) s2")
  have D: "decide mm client_id now utcnow agent_id x s =
     (case r1 of
        Inl e \<Rightarrow> (Inl e, s1)
      | Inr None \<Rightarrow> (blocked (req_instance x) Agent_disabled, s1)
      | Inr (Some cfg) \<Rightarrow>
          if \<not> enabled cfg then (blocked (req_instance x) Agent_disabled, s1)
          else
            (case r2 of
               Inl e \<Rightarrow> (Inl e, s2)
             | Inr n \<Rightarrow>
                 if max_switches_per_week cfg \<le> n
                 then (blocked (req_instance x)
                         (Switch_limit_reached n (max_switches_per_week cfg)), s2)
                 else
                   (case r3 of
                      Inl e \<Rightarrow> (Inl e, s3)
                    | Inr None \<Rightarrow> evaluate mm client_id agent_id cfg x s3
                    | Inr (Some ts) \<Rightarrow>
                        if hours_since utcnow ts < of_int (min_pool_duration_hours cfg)
                        then (blocked (req_instance x)
                                (Too_soon_to_switch (hours_since utcnow ts)
                                   (of_int (min_pool_duration_hours cfg))), s3)
                        else evaluate mm client_id agent_id cfg x s3)))"
    if "instance_id (req_instance x) = instance_id (req_instance data)" for x
    using that by (simp add: decide_def Let_def q1 q2 q3 split: sum.splits option.splits)
  have g: "gate_reason Agent_disabled" "\<And>n l. gate_reason (Switch_limit_reached n l)"
    "\<And>h m. gate_reason (Too_soon_to_switch h m)"
    by (simp_all add: gate_reason_def)
  note D1 = D [of data, OF refl] and D2 = D [of ?data', OF i]
  show ?thesis
  proof (cases r1)
    case (Inl e)
    then show ?thesis by (simp add: D1 D2)
  next
    case c: (Inr c)
    show ?thesis
    proof (cases "c = None \<or> \<not> enabled (the c)")
      case True
      then have "decide mm client_id now utcnow agent_id data s
          = (blocked (req_instance data) Agent_disabled, s1)"
        using c by (cases c) (auto simp: D1)
      from bl [OF g(1) this] True c show ?thesis
        by (cases c) (auto simp: D1 D2)
    next
      case False
      then obtain cfg where cfg: "c = Some cfg" "enabled cfg" by auto
      show ?thesis
      proof (cases r2)
        case (Inl e)
        then show ?thesis by (simp add: D1 D2 c cfg)
      next
        case n: (Inr n)
        show ?thesis
        proof (cases "max_switches_per_week cfg \<le> n")
          case True
          then have "decide mm client_id now utcnow agent_id data s
              = (blocked (req_instance data)
                   (Switch_limit_reached n (max_switches_per_week cfg)), s2)"
            by (simp add: D1 c cfg n)
          from bl [OF g(2) this] True show ?thesis
            by (simp add: D1 D2 c cfg n)
        next
          case low: False
          show ?thesis
          proof (cases r3)
            case (Inl e)
            then show ?thesis by (simp add: D1 D2 c cfg n low)
          next
            case t: (Inr t)
            show ?thesis
            proof (cases "\<exists>ts. t = Some ts
                \<and> hours_since utcnow ts < of_int (min_pool_duration_hours cfg)")
              case True
              then obtain ts where ts: "t = Some ts"
                "hours_since utcnow ts < of_int (min_pool_duration_hours cfg)" by blast
              then have "decide mm client_id now utcnow agent_id data s
                  = (blocked (req_instance data)
                       (Too_soon_to_switch (hours_since utcnow ts)
                          (of_int (min_pool_duration_hours cfg))), s3)"
                by (simp add: D1 c cfg n low t)
              from bl [OF g(3) this] ts show ?thesis
                by (simp add: D1 D2 c cfg n low t)
            next
              case False
              then show ?thesis
                by (cases t) (simp_all add: D1 D2 c cfg n low t ev)
            qed
          qed
        qed
      qed
    qed
  qed
qed

lemma get_decision_rebinds:
  assumes "spot_pools (req_pricing data) = first # rest"
    and "\<not> truthy (lookup_price (first # rest) (recorded_pool data))"
    and "\<And>a. fst (get_decision mm client_id now utcnow agent_id data s) = Inr a
            \<Longrightarrow> \<not> gate_reason (d_reason a)"
  shows "get_decision mm client_id now utcnow agent_id data s
           = get_decision mm client_id now utcnow agent_id (as_current (pool_id first) data) s"
proof -
  have "fst (get_decision mm client_id now utcnow agent_id data s) = Inr a"
    if "fst (decide mm client_id now utcnow agent_id data s) = Inr a" for a
    using that
    by (cases "decide mm client_id now utcnow agent_id data s") (simp add: get_decision_def)
  then have "\<And>a. fst (decide mm client_id now utcnow agent_id data s) = Inr a
            \<Longrightarrow> \<not> gate_reason (d_reason a)"
    using assms(3) by blast
  then have d: "decide mm client_id now utcnow agent_id data s
           = decide mm client_id now utcnow agent_id (as_current (pool_id first) data) s"
    using assms(1,2) decide_rebinds by blast
  have i: "instance_id (req_instance (as_current (pool_id first) data))
      = instance_id (req_instance data)"
    by (simp add: as_current_def)
  show ?thesis
    unfolding get_decision_def i d by (rule refl)
qed

lemma ledger_not_gate:
  assumes "instance_id (req_instance data) = ''i-old''"
    and "fst (get_decision scenario_manager 1 2000 2000 ''agent-1'' data ([], ledger_db)) = Inr a"
  shows "\<not> gate_reason (d_reason a)"
proof -
  have "fst (decide scenario_manager 1 2000 2000 ''agent-1'' data ([], ledger_db)) = Inr a"
    using assms(2) by (auto simp: get_decision_def split: prod.splits sum.splits)
  then have "fst (evaluate scenario_manager 1 ''agent-1'' example_config data ([], ledger_db)) = Inr a"
    using ledger_decide [of data] assms(1) by simp
  then show ?thesis
    using evaluate_not_gate [of scenario_manager 1 "''agent-1''" example_config data "([], ledger_db)" a]
    by (cases "evaluate scenario_manager 1 ''agent-1'' example_config data ([], ledger_db)") simp
qed

lemma old_request_as_current: "as_current ''pool-a'' stale_request = old_request"
  by (simp add: as_current_def stale_request_def old_request_def)

lemma rebound_request_decision:
  "get_decision scenario_manager 1 2000 2000 ''agent-1'' (as_current ''pool-b'' zero_request)
     ([], ledger_db)
     = (Inr \<lparr>d_instance_id = ''i-old'', d_risk_score = 5 / 10,
             d_recommended_action = ''switch_pool'', d_recommended_mode = ''spot'',
             d_recommended_pool_id = Some ''pool-a'', d_expected_savings_per_hour = 3 / 10,
             d_allowed = True, d_reason = Better_pool_available ''pool-a'' 30\<rparr>,
        [],
        insert_risk_score
          \<lparr>rs_client_id = 1, rs_instance_id = ''i-old'', rs_agent_id = ''agent-1'',
           rs_risk_score = 5 / 10, rs_recommended_action = ''switch_pool'',
           rs_recommended_pool_id = ''pool-a'', rs_recommended_mode = ''spot'',
           rs_expected_savings_per_hour = 3 / 10, rs_allowed = True,
           rs_reason = Better_pool_available ''pool-a'' 30\<rparr> ledger_db)"
proof -
  let ?x = "as_current ''pool-b'' zero_request"
  have i: "instance_id (req_instance ?x) = ''i-old''"
    by (simp add: as_current_def zero_request_def)
  have r: "resolve_current zero_pools ''pool-b'' = (Some (3 / 10), ''pool-b'')"
    by (simp add: resolve_current_def zero_pools_def truthy_def)
  have s: "get_risk_score scenario_manager ''pool-b'' (Some (3 / 10)) (7 / 10) 1
      = Inr (1 / 2, ''normal'', Pool_not_in_training_data)"
    by (simp add: get_risk_score_def scenario_manager_def)
  have m: "min_by_price zero_pools = Inr \<lparr>pool_id = ''pool-a'', price = Some 0\<rparr>"
    by (simp add: min_by_price_def zero_pools_def)
  have c: "choose_action example_config \<lparr>spot_pools = zero_pools, on_demand_price = 1\<rparr>
      ''spot'' ''pool-b'' (Some (3 / 10)) (1 / 2) ''normal'' Pool_not_in_training_data
      = Inr (''switch_pool'', ''spot'', ''pool-a'', 3 / 10, Better_pool_available ''pool-a'' 30)"
    by (simp add: choose_action_def m example_config_def)
  have p: "py_round (1 / 2) 4 = 1 / 2" "py_round (3 / 10) 6 = 3 / 10"
    by (simp_all add: py_round_def round_half_even_def)
  have a: "auto_switch_enabled example_config"
    by (simp add: example_config_def)
  have ev: "evaluate scenario_manager 1 ''agent-1'' example_config ?x ([], ledger_db)
     = (Inr \<lparr>d_instance_id = ''i-old'', d_risk_score = 5 / 10,
             d_recommended_action = ''switch_pool'', d_recommended_mode = ''spot'',
             d_recommended_pool_id = Some ''pool-a'', d_expected_savings_per_hour = 3 / 10,
             d_allowed = True, d_reason = Better_pool_available ''pool-a'' 30\<rparr>,
        [],
        insert_risk_score
          \<lparr>rs_client_id = 1, rs_instance_id = ''i-old'', rs_agent_id = ''agent-1'',
           rs_risk_score = 5 / 10, rs_recommended_action = ''switch_pool'',
           rs_recommended_pool_id = ''pool-a'', rs_recommended_mode = ''spot'',
           rs_expected_savings_per_hour = 3 / 10, rs_allowed = True,
           rs_reason = Better_pool_available ''pool-a'' 30\<rparr> ledger_db)"
    by (simp add: evaluate_def as_current_def zero_request_def r discount_def s c p a Let_def)
  show ?thesis
    using ledger_decide [of ?x] by (simp add: get_decision_def i ev)
qed

text \<open>
  C1, as stated: when the snapshot does not list the recorded pool, the resolved pool and
  price are those of the cheapest listed pool.  They are not: with \<open>pool-a\<close> at 0.5 listed
  before \<open>pool-b\<close> at 0.3 and the recorded pool \<open>pool-c\<close> absent, the cheapest pool is
  \<open>pool-b\<close> and the engine resolves to \<open>pool-a\<close>.
\<close>

theorem stale_pool_not_cheapest_counterexample:
  "lookup_price stale_pools ''pool-c'' = None
   \<and> min_by_price stale_pools = Inr \<lparr>pool_id = ''pool-b'', price = Some (3 / 10)\<rparr>
   \<and> resolve_current stale_pools ''pool-c'' = (Some (5 / 10), ''pool-a'')
   \<and> resolve_current stale_pools ''pool-c'' \<noteq> (Some (3 / 10), ''pool-b'')"
  by (simp add: stale_pools_def min_by_price_def resolve_current_def truthy_def)

text \<open>
  C1, amended: when the snapshot does not list the recorded pool, the engine falls back to
  the first pool listed in the snapshot (not the cheapest) as the resolved current pool and
  price.  The evaluating part of the endpoint, and so every decide call that is not
  answered by a guard, proceeds exactly as for the same request with the first listed pool
  as the instance's current pool, in any store and under any persistence faults.
\<close>

theorem stale_pool_falls_back_to_first:
  assumes "recorded_pool data \<notin> pool_id ` set (spot_pools (req_pricing data))"
    and "spot_pools (req_pricing data) = first # rest"
  shows "resolve_current (spot_pools (req_pricing data)) (recorded_pool data)
           = (price first, pool_id first)
         \<and> evaluate mm client_id agent_id cfg data s
             = evaluate mm client_id agent_id cfg (as_current (pool_id first) data) s
         \<and> ((\<forall>a. fst (get_decision mm client_id now utcnow agent_id data s) = Inr a
                  \<longrightarrow> \<not> gate_reason (d_reason a))
              \<longrightarrow> get_decision mm client_id now utcnow agent_id data s
                    = get_decision mm client_id now utcnow agent_id
                        (as_current (pool_id first) data) s)"
proof -
  have f: "\<not> truthy (lookup_price (first # rest) (recorded_pool data))"
    using lookup_price_absent [OF assms(1)] by (simp add: assms(2) truthy_def)
  show ?thesis
    using resolve_falsy [OF f] evaluate_rebinds [OF assms(2) f]
      get_decision_rebinds [OF assms(2) f]
    by (simp add: assms(2))
qed

theorem stale_pool_falls_back_to_first_witness:
  "recorded_pool stale_request \<notin> pool_id ` set (spot_pools (req_pricing stale_request))
   \<and> spot_pools (req_pricing stale_request)
       = \<lparr>pool_id = ''pool-a'', price = Some (5 / 10)\<rparr>
           # [\<lparr>pool_id = ''pool-b'', price = Some (3 / 10)\<rparr>]
   \<and> resolve_current (spot_pools (req_pricing stale_request)) (recorded_pool stale_request)
       = (Some (5 / 10), ''pool-a'')
   \<and> get_decision scenario_manager 1 2000 2000 ''agent-1'' stale_request ([], ledger_db)
       = (Inr \<lparr>d_instance_id = ''i-old'', d_risk_score = 3 / 10,
               d_recommended_action = ''switch_pool'', d_recommended_mode = ''spot'',
               d_recommended_pool_id = Some ''pool-b'', d_expected_savings_per_hour = 2 / 10,
               d_allowed = True, d_reason = Better_pool_available ''pool-b'' 20\<rparr>,
          [],
          insert_risk_score
            \<lparr>rs_client_id = 1, rs_instance_id = ''i-old'', rs_agent_id = ''agent-1'',
             rs_risk_score = 3 / 10, rs_recommended_action = ''switch_pool'',
             rs_recommended_pool_id = ''pool-b'', rs_recommended_mode = ''spot'',
             rs_expected_savings_per_hour = 2 / 10, rs_allowed = True,
             rs_reason = Better_pool_available ''pool-b'' 20\<rparr> ledger_db)"
proof -
  have h1: "recorded_pool stale_request \<notin> pool_id ` set (spot_pools (req_pricing stale_request))"
    by (simp add: recorded_pool_def stale_request_def stale_pools_def)
  have h2: "spot_pools (req_pricing stale_request)
       = \<lparr>pool_id = ''pool-a'', price = Some (5 / 10)\<rparr>
           # [\<lparr>pool_id = ''pool-b'', price = Some (3 / 10)\<rparr>]"
    by (simp add: stale_request_def stale_pools_def)
  have h3: "\<forall>a. fst (get_decision scenario_manager 1 2000 2000 ''agent-1'' stale_request
                       ([], ledger_db)) = Inr a \<longrightarrow> \<not> gate_reason (d_reason a)"
    using ledger_not_gate [of stale_request] by (simp add: stale_request_def)
  note t = stale_pool_falls_back_to_first [OF h1 h2, of scenario_manager 1 "''agent-1''"
      example_config "([], ledger_db)" 2000 2000]
  have r: "resolve_current (spot_pools (req_pricing stale_request)) (recorded_pool stale_request)
       = (Some (5 / 10), ''pool-a'')"
    using t by simp
  have "get_decision scenario_manager 1 2000 2000 ''agent-1'' stale_request ([], ledger_db)
      = get_decision scenario_manager 1 2000 2000 ''agent-1'' old_request ([], ledger_db)"
    using t h3 by (simp add: old_request_as_current)
  then show ?thesis
    using h1 h2 r by (simp add: old_request_decision)
qed

text \<open>
  C10: when the snapshot's entry for the current pool (the first pool with that id, the one
  the lookup loop reads) has price 0 or no price, the engine treats the pool as absent: the
  current pool and price are rebound to the first pool of the snapshot's list.  The
  evaluating part of the endpoint, and so every decide call that is not answered by a
  guard, proceeds exactly as for the same request with the first listed pool as the
  instance's current pool, in any store and under any persistence faults.
\<close>

theorem zero_price_rebinds_to_first:
  assumes "spot_pools (req_pricing data) = before @ p # after"
    and "recorded_pool data \<notin> pool_id ` set before"
    and "pool_id p = recorded_pool data"
    and "price p = Some 0 \<or> price p = None"
    and "first = hd (spot_pools (req_pricing data))"
  shows "resolve_current (spot_pools (req_pricing data)) (recorded_pool data)
           = (price first, pool_id first)
         \<and> evaluate mm client_id agent_id cfg data s
             = evaluate mm client_id agent_id cfg (as_current (pool_id first) data) s
         \<and> ((\<forall>a. fst (get_decision mm client_id now utcnow agent_id data s) = Inr a
                  \<longrightarrow> \<not> gate_reason (d_reason a))
              \<longrightarrow> get_decision mm client_id now utcnow agent_id data s
                    = get_decision mm client_id now utcnow agent_id
                        (as_current (pool_id first) data) s)"
proof -
  obtain rest where l: "spot_pools (req_pricing data) = first # rest"
    using assms(1,5) by (cases before) auto
  have "lookup_price (spot_pools (req_pricing data)) (recorded_pool data) = price p"
    using assms(1-3) by (simp add: lookup_price_first)
  moreover have "\<not> truthy (price p)"
    using assms(4) by (auto simp: truthy_def)
  ultimately have f: "\<not> truthy (lookup_price (first # rest) (recorded_pool data))"
    by (simp add: l)
  show ?thesis
    using resolve_falsy [OF f] evaluate_rebinds [OF l f] get_decision_rebinds [OF l f]
    by (simp add: l)
qed

theorem zero_price_rebinds_to_first_witness:
  "spot_pools (req_pricing zero_request)
     = [\<lparr>pool_id = ''pool-b'', price = Some (3 / 10)\<rparr>]
         @ \<lparr>pool_id = ''pool-a'', price = Some 0\<rparr> # []
   \<and> recorded_pool zero_request \<notin> pool_id ` set [\<lparr>pool_id = ''pool-b'', price = Some (3 / 10)\<rparr>]
   \<and> pool_id \<lparr>pool_id = ''pool-a'', price = Some 0\<rparr> = recorded_pool zero_request
   \<and> price \<lparr>pool_id = ''pool-a'', price = Some 0\<rparr> = Some 0
   \<and> \<lparr>pool_id = ''pool-b'', price = Some (3 / 10)\<rparr> = hd (spot_pools (req_pricing zero_request))
   \<and> resolve_current (spot_pools (req_pricing zero_request)) (recorded_pool zero_request)
       = (Some (3 / 10), ''pool-b'')
   \<and> get_decision scenario_manager 1 2000 2000 ''agent-1'' zero_request ([], ledger_db)
       = (Inr \<lparr>d_instance_id = ''i-old'', d_risk_score = 5 / 10,
               d_recommended_action = ''switch_pool'', d_recommended_mode = ''spot'',
               d_recommended_pool_id = Some ''pool-a'', d_expected_savings_per_hour = 3 / 10,
               d_allowed = True, d_reason = Better_pool_available ''pool-a'' 30\<rparr>,
          [],
          insert_risk_score
            \<lparr>rs_client_id = 1, rs_instance_id = ''i-old'', rs_agent_id = ''agent-1'',
             rs_risk_score = 5 / 10, rs_recommended_action = ''switch_pool'',
             rs_recommended_pool_id = ''pool-a'', rs_recommended_mode = ''spot'',
             rs_expected_savings_per_hour = 3 / 10, rs_allowed = True,
             rs_reason = Better_pool_available ''pool-a'' 30\<rparr> ledger_db)"
proof -
  have h1: "spot_pools (req_pricing zero_request)
     = [\<lparr>pool_id = ''pool-b'', price = Some (3 / 10)\<rparr>]
         @ \<lparr>pool_id = ''pool-a'', price = Some 0\<rparr> # []"
    by (simp add: zero_request_def zero_pools_def)
  have h2: "recorded_pool zero_request
      \<notin> pool_id ` set [\<lparr>pool_id = ''pool-b'', price = Some (3 / 10)\<rparr>]"
    by (simp add: recorded_pool_def zero_request_def)
  have h3: "pool_id \<lparr>pool_id = ''pool-a'', price = Some 0\<rparr> = recorded_pool zero_request"
    by (simp add: recorded_pool_def zero_request_def)
  have h4: "price \<lparr>pool_id = ''pool-a'', price = Some 0\<rparr> = Some 0
      \<or> price \<lparr>pool_id = ''pool-a'', price = Some 0\<rparr> = None"
    by simp
  have h5: "\<lparr>pool_id = ''pool-b'', price = Some (3 / 10)\<rparr> = hd (spot_pools (req_pricing zero_request))"
    by (simp add: zero_request_def zero_pools_def)
  have h6: "\<forall>a. fst (get_decision scenario_manager 1 2000 2000 ''agent-1'' zero_request
                       ([], ledger_db)) = Inr a \<longrightarrow> \<not> gate_reason (d_reason a)"
    using ledger_not_gate [of zero_request] by (simp add: zero_request_def)
  note t = zero_price_rebinds_to_first [OF h1 h2 h3 h4 h5, of scenario_manager 1 "''agent-1''"
      example_config "([], ledger_db)" 2000 2000]
  have r: "resolve_current (spot_pools (req_pricing zero_request)) (recorded_pool zero_request)
       = (Some (3 / 10), ''pool-b'')"
    using t by simp
  have "get_decision scenario_manager 1 2000 2000 ''agent-1'' zero_request ([], ledger_db)
      = get_decision scenario_manager 1 2000 2000 ''agent-1'' (as_current ''pool-b'' zero_request)
          ([], ledger_db)"
    using t h6 by simp
  then show ?thesis
    using h1 h2 h3 h5 r by (simp add: rebound_request_decision)
qed

end
